theory Spec2Isabelle
  imports
    Complex_Main
    "HOL-Library.Sublist"
    "HOL-Library.Char_ord"
    "HOL-Library.List_Lexorder"
    "HOL-Library.Multiset"
begin

section \<open>Python values\<close>

text \<open>
  The server is written in Python. A \<^verbatim>\<open>str\<close> is modelled as a \<^typ>\<open>string\<close> whose
  characters are the code points 0 to 255, one \<^typ>\<open>char\<close> per code point; \<open>length\<close> is
  Python's \<^verbatim>\<open>len\<close>. The character classes below are the ones of \<^verbatim>\<open>str.isspace\<close>, of the
  regular expression escapes \<^verbatim>\<open>\s\<close> and \<^verbatim>\<open>\d\<close> restricted to that range.
\<close>

definition isspace :: "char \<Rightarrow> bool" where
  "isspace c = (of_char c \<in> {9, 10, 11, 12, 13, 28, 29, 30, 31, 32, 133, 160 :: nat})"

definition isdigit :: "char \<Rightarrow> bool" where
  "isdigit c = (48 \<le> (of_char c :: nat) \<and> (of_char c :: nat) \<le> 57)"

text \<open>\<^verbatim>\<open>s.strip()\<close> and \<^verbatim>\<open>s.strip(chars)\<close>.\<close>

definition strip_where :: "(char \<Rightarrow> bool) \<Rightarrow> string \<Rightarrow> string" where
  "strip_where P s = rev (dropWhile P (rev (dropWhile P s)))"

definition py_strip :: "string \<Rightarrow> string" where
  "py_strip s = strip_where isspace s"

definition strip_chars :: "string \<Rightarrow> string \<Rightarrow> string" where
  "strip_chars chars s = strip_where (\<lambda>c. c \<in> set chars) s"

text \<open>\<^verbatim>\<open>sub in s\<close> on strings.\<close>

fun py_in :: "string \<Rightarrow> string \<Rightarrow> bool" where
  "py_in sub [] = (sub = [])"
| "py_in sub (c # cs) = (prefix sub (c # cs) \<or> py_in sub cs)"

text \<open>
  \<^verbatim>\<open>s.partition(sep)\<close> for a separator that occurs: the text before the first occurrence
  and the text after it; \<open>None\<close> when the separator does not occur.
\<close>

fun partition_at :: "string \<Rightarrow> string \<Rightarrow> (string \<times> string) option" where
  "partition_at sep [] = (if sep = [] then Some ([], []) else None)"
| "partition_at sep (c # cs) =
     (if prefix sep (c # cs) then Some ([], drop (length sep) (c # cs))
      else (case partition_at sep cs of
              None \<Rightarrow> None
            | Some (before, after) \<Rightarrow> Some (c # before, after)))"

text \<open>\<^verbatim>\<open>s.split(sep)\<close> for a one-character separator, and \<^verbatim>\<open>sep.join(xs)\<close>.\<close>

fun py_split :: "char \<Rightarrow> string \<Rightarrow> string list" where
  "py_split sep [] = [[]]"
| "py_split sep (c # cs) =
     (if c = sep then [] # py_split sep cs
      else (case py_split sep cs of
              [] \<Rightarrow> [[c]]
            | w # ws \<Rightarrow> (c # w) # ws))"

fun py_join :: "string \<Rightarrow> string list \<Rightarrow> string" where
  "py_join sep [] = []"
| "py_join sep [x] = x"
| "py_join sep (x # y # ys) = x @ sep @ py_join sep (y # ys)"

text \<open>
  \<^verbatim>\<open>re.sub(pat, rep, s)\<close> for a pattern that is a literal, non-empty text: the occurrences
  are replaced from the left, without overlap.
\<close>

function replace_all :: "string \<Rightarrow> string \<Rightarrow> string \<Rightarrow> string" where
  "replace_all pat rep [] = []"
| "replace_all pat rep (c # cs) =
     (if pat \<noteq> [] \<and> prefix pat (c # cs)
      then rep @ replace_all pat rep (drop (length pat) (c # cs))
      else c # replace_all pat rep cs)"
  by pat_completeness auto
termination
  by (relation "measure (\<lambda>(pat, rep, s). length s)") (auto simp: neq_Nil_conv)

text \<open>
  \<^verbatim>\<open>re.sub(r'\s+', ' ', s)\<close>: every maximal run of whitespace becomes one space.
\<close>

function collapse_ws :: "string \<Rightarrow> string" where
  "collapse_ws [] = []"
| "collapse_ws (c # cs) =
     (if isspace c then CHR '' '' # collapse_ws (dropWhile isspace cs)
      else c # collapse_ws cs)"
  by pat_completeness auto
termination
  by (relation "measure length") (auto simp: length_dropWhile_le less_Suc_eq_le)

text \<open>
  \<^verbatim>\<open>re.sub(r'<[^>]+>', '', s)\<close>: a match starts at a \<open><\<close> whose next character is not
  \<open>>\<close> and that has a \<open>>\<close> somewhere after it, and ends at the first such \<open>>\<close>.
\<close>

function strip_tags :: "string \<Rightarrow> string" where
  "strip_tags [] = []"
| "strip_tags (c # cs) =
     (if c = CHR ''<'' \<and> cs \<noteq> [] \<and> hd cs \<noteq> CHR ''>'' \<and> CHR ''>'' \<in> set cs
      then strip_tags (tl (dropWhile (\<lambda>d. d \<noteq> CHR ''>'') cs))
      else c # strip_tags cs)"
  by pat_completeness auto
termination
proof (relation "measure length")
  show "wf (measure length)" by simp
next
  fix c :: char and cs :: string
  have "length (tl (dropWhile (\<lambda>d. d \<noteq> CHR ''>'') cs)) \<le> length cs"
    using length_dropWhile_le [of "\<lambda>d. d \<noteq> CHR ''>''" cs] by simp
  then show "(tl (dropWhile (\<lambda>d. d \<noteq> CHR ''>'') cs), c # cs) \<in> measure length"
    by simp
next
  fix c :: char and cs :: string
  show "(cs, c # cs) \<in> measure length" by simp
qed

text \<open>Whether \<^verbatim>\<open>re.search(r'<[^>]+>', s)\<close> finds a match.\<close>

fun has_tag :: "string \<Rightarrow> bool" where
  "has_tag [] = False"
| "has_tag (c # cs) =
     ((c = CHR ''<'' \<and> cs \<noteq> [] \<and> hd cs \<noteq> CHR ''>'' \<and> CHR ''>'' \<in> set cs) \<or> has_tag cs)"


lemma partition_at_parts:
  "partition_at sep s = Some (before, after) \<Longrightarrow> s = before @ sep @ after"
proof (induction s arbitrary: before)
  case Nil
  then show ?case by (simp split: if_splits)
next
  case (Cons c cs)
  show ?case
  proof (cases "prefix sep (c # cs)")
    case True
    with Cons.prems have "before = []" and "after = drop (length sep) (c # cs)" by simp_all
    moreover from True obtain r where "c # cs = sep @ r" by (auto simp: prefix_def)
    ultimately show ?thesis by simp
  next
    case False
    with Cons.prems obtain b where "partition_at sep cs = Some (b, after)" and "before = c # b"
      by (auto split: option.splits)
    with Cons.IH [of b] show ?thesis by simp
  qed
qed

text \<open>
  \<^verbatim>\<open>re.findall(r'<text[^>]*>(.*?)</text>', s, re.DOTALL)\<close>. A match needs \<open><text\<close>, then
  the first \<open>>\<close> after it, then the first \<open></text>\<close> after that; the group is the text in
  between, and the search goes on behind the match. When the first \<open><text\<close> has no match
  no later one has: a later start needs a \<open>>\<close> and a \<open></text>\<close> further right still.
\<close>

function findall_text :: "string \<Rightarrow> string list" where
  "findall_text s =
     (case partition_at ''<text'' s of
        None \<Rightarrow> []
      | Some (skipped, r1) \<Rightarrow>
          (case partition_at ''>'' r1 of
             None \<Rightarrow> []
           | Some (attrs, r2) \<Rightarrow>
               (case partition_at ''</text>'' r2 of
                  None \<Rightarrow> []
                | Some (body, r3) \<Rightarrow> body # findall_text r3)))"
  by pat_completeness auto
termination
proof (relation "measure length")
  show "wf (measure length)" by simp
next
  fix s x2 skipped r1 x2a attrs r2 x2b body r3
  assume "partition_at ''<text'' s = Some x2" and "(skipped, r1) = x2"
    and "partition_at ''>'' r1 = Some x2a" and "(attrs, r2) = x2a"
    and "partition_at ''</text>'' r2 = Some x2b" and "(body, r3) = x2b"
  then have "s = skipped @ ''<text'' @ r1" and "r1 = attrs @ ''>'' @ r2"
    and "r2 = body @ ''</text>'' @ r3"
    by (auto dest: partition_at_parts)
  then have "length r3 < length s" by simp
  then show "(r3, s) \<in> measure length" by simp
qed

declare findall_text.simps [simp del]

section \<open>Exceptions and JSON values\<close>

text \<open>
  An exception is its class and its message. The classes are the ones the server raises
  or tells apart; all of them derive from \<^verbatim>\<open>Exception\<close>.
\<close>

datatype exn_class =
  ValueError | KeyError | TypeError | AttributeError | OSError
  | TranscriptsDisabled | NoTranscriptFound | VideoUnavailable | Exception

datatype exn = Raise exn_class string

fun exn_str :: "exn \<Rightarrow> string" where
  "exn_str (Raise cls msg) = msg"

text \<open>
  What \<^verbatim>\<open>json.loads\<close> returns: a number is kept as a rational (the two infinities and
  NaN, which standard JSON does not have, are left out), an object as its items.
\<close>

datatype json =
  JNull | JBool bool | JNum rat | JStr string | JArr "json list" | JObj "(string \<times> json) list"

text \<open>The truth value Python gives a JSON value in \<^verbatim>\<open>if v\<close>, \<^verbatim>\<open>not v\<close> and \<^verbatim>\<open>a or b\<close>.\<close>

fun truthy :: "json \<Rightarrow> bool" where
  "truthy JNull = False"
| "truthy (JBool b) = b"
| "truthy (JNum n) = (n \<noteq> 0)"
| "truthy (JStr s) = (s \<noteq> [])"
| "truthy (JArr xs) = (xs \<noteq> [])"
| "truthy (JObj kvs) = (kvs \<noteq> [])"

definition py_or :: "json \<Rightarrow> json \<Rightarrow> json" where
  "py_or a b = (if truthy a then a else b)"

text \<open>
  \<^verbatim>\<open>v.get(k, default)\<close>, \<^verbatim>\<open>v[k]\<close>, \<^verbatim>\<open>k in v\<close>, \<^verbatim>\<open>for x in v\<close> and \<^verbatim>\<open>len(v)\<close> for a
  text key \<open>k\<close>; each raises when the value is of a type that has no such operation.
\<close>

fun py_get :: "json \<Rightarrow> string \<Rightarrow> json \<Rightarrow> exn + json" where
  "py_get (JObj kvs) k d = (case map_of kvs k of None \<Rightarrow> Inr d | Some v \<Rightarrow> Inr v)"
| "py_get v k d = Inl (Raise AttributeError ''object has no attribute get'')"

fun py_getitem :: "json \<Rightarrow> string \<Rightarrow> exn + json" where
  "py_getitem (JObj kvs) k = (case map_of kvs k of None \<Rightarrow> Inl (Raise KeyError k) | Some v \<Rightarrow> Inr v)"
| "py_getitem v k = Inl (Raise TypeError ''indices must be integers or object is not subscriptable'')"

fun py_contains :: "string \<Rightarrow> json \<Rightarrow> exn + bool" where
  "py_contains k (JObj kvs) = Inr (k \<in> fst ` set kvs)"
| "py_contains k (JArr xs) = Inr (JStr k \<in> set xs)"
| "py_contains k (JStr s) = Inr (py_in k s)"
| "py_contains k v = Inl (Raise TypeError ''argument is not iterable'')"

fun py_iter :: "json \<Rightarrow> exn + json list" where
  "py_iter (JArr xs) = Inr xs"
| "py_iter (JObj kvs) = Inr (map (\<lambda>kv. JStr (fst kv)) kvs)"
| "py_iter (JStr s) = Inr (map (\<lambda>c. JStr [c]) s)"
| "py_iter v = Inl (Raise TypeError ''object is not iterable'')"

fun py_len :: "json \<Rightarrow> exn + nat" where
  "py_len (JArr xs) = Inr (length xs)"
| "py_len (JObj kvs) = Inr (length kvs)"
| "py_len (JStr s) = Inr (length s)"
| "py_len v = Inl (Raise TypeError ''object has no len'')"

section \<open>Subtitle decoding and the content checks of \<^verbatim>\<open>get_youtube_transcript\<close>\<close>

text \<open>
  The body of a downloaded subtitle track is refused when it is an HLS playlist:
  \<^verbatim>\<open>content.startswith('#EXTM3U') or '#EXT-X-' in content\<close>.
\<close>

definition is_m3u8_playlist :: "string \<Rightarrow> bool" where
  "is_m3u8_playlist content = (prefix ''#EXTM3U'' content \<or> py_in ''#EXT-X-'' content)"

text \<open>
  The json3 branch: every \<^verbatim>\<open>seg['utf8'].strip()\<close> of every event that has \<^verbatim>\<open>segs\<close>, joined
  by spaces. The parser \<^verbatim>\<open>json.loads\<close> is a parameter \<open>loads\<close>.
\<close>

fun json3_segs :: "json list \<Rightarrow> exn + string list" where
  "json3_segs [] = Inr []"
| "json3_segs (seg # segs) =
     (case py_contains ''utf8'' seg of
        Inl e \<Rightarrow> Inl e
      | Inr False \<Rightarrow> json3_segs segs
      | Inr True \<Rightarrow>
          (case py_getitem seg ''utf8'' of
             Inl e \<Rightarrow> Inl e
           | Inr (JStr t) \<Rightarrow>
               (case json3_segs segs of Inl e \<Rightarrow> Inl e | Inr ts \<Rightarrow> Inr (py_strip t # ts))
           | Inr v \<Rightarrow> Inl (Raise AttributeError ''object has no attribute strip'')))"

fun json3_events :: "json list \<Rightarrow> exn + string list" where
  "json3_events [] = Inr []"
| "json3_events (event # events) =
     (case py_contains ''segs'' event of
        Inl e \<Rightarrow> Inl e
      | Inr False \<Rightarrow> json3_events events
      | Inr True \<Rightarrow>
          (case py_getitem event ''segs'' of
             Inl e \<Rightarrow> Inl e
           | Inr segs \<Rightarrow>
               (case py_iter segs of
                  Inl e \<Rightarrow> Inl e
                | Inr ss \<Rightarrow>
                    (case json3_segs ss of
                       Inl e \<Rightarrow> Inl e
                     | Inr ts \<Rightarrow>
                         (case json3_events events of
                            Inl e \<Rightarrow> Inl e
                          | Inr us \<Rightarrow> Inr (ts @ us))))))"

definition parse_json3 :: "(string \<Rightarrow> exn + json) \<Rightarrow> string \<Rightarrow> exn + string" where
  "parse_json3 loads content =
     (case loads content of
        Inl e \<Rightarrow> Inl e
      | Inr data \<Rightarrow>
          (case py_get data ''events'' (JArr []) of
             Inl e \<Rightarrow> Inl e
           | Inr events \<Rightarrow>
               (case py_iter events of
                  Inl e \<Rightarrow> Inl e
                | Inr evs \<Rightarrow>
                    (case json3_events evs of
                       Inl e \<Rightarrow> Inl e
                     | Inr text_lines \<Rightarrow>
                         Inr (py_strip (collapse_ws (py_join '' '' text_lines)))))))"

text \<open>
  The srv1, srv2 and srv3 branch: the five entities are replaced one after the other,
  each in one pass, then the tags are removed and the cue is stripped.
\<close>

definition srv_cue_text :: "string \<Rightarrow> string" where
  "srv_cue_text t =
     py_strip (strip_tags
       (replace_all ''&#39;'' [CHR 0x27]
         (replace_all ''&quot;'' [CHR 0x22]
           (replace_all ''&gt;'' ''>''
             (replace_all ''&lt;'' ''<''
               (replace_all ''&amp;'' ''&'' t))))))"

definition parse_srv :: "string \<Rightarrow> string" where
  "parse_srv content =
     py_join '' '' (filter (\<lambda>t. t \<noteq> []) (map srv_cue_text (findall_text content)))"

text \<open>
  The WebVTT branch. A stripped line is kept when it is not empty, does not start with
  \<^verbatim>\<open>WEBVTT\<close> or \<^verbatim>\<open>NOTE\<close>, has no \<^verbatim>\<open>-->\<close> and is not all digits.
\<close>

definition vtt_keep :: "string \<Rightarrow> bool" where
  "vtt_keep line =
     (line \<noteq> [] \<and> \<not> prefix ''WEBVTT'' line \<and> \<not> py_in ''-->'' line
      \<and> \<not> list_all isdigit line \<and> \<not> prefix ''NOTE'' line)"

definition vtt_lines :: "string \<Rightarrow> string list" where
  "vtt_lines content =
     filter (\<lambda>l. l \<noteq> [])
       (map strip_tags (filter vtt_keep (map py_strip (py_split (CHR 0x0A) content))))"

definition parse_vtt :: "string \<Rightarrow> string" where
  "parse_vtt content = py_join '' '' (vtt_lines content)"

text \<open>
  The dispatch on the selected extension (\<open>None\<close> when the track has none), the last
  branch passing the body through.
\<close>

definition parse_subtitle ::
  "(string \<Rightarrow> exn + json) \<Rightarrow> string option \<Rightarrow> string \<Rightarrow> exn + string" where
  "parse_subtitle loads selected_ext content =
     (if selected_ext = Some ''json3'' then parse_json3 loads content
      else if selected_ext = Some ''srv1'' \<or> selected_ext = Some ''srv2''
              \<or> selected_ext = Some ''srv3'' then Inr (parse_srv content)
      else if py_in ''WEBVTT'' content \<or> selected_ext = Some ''vtt'' then Inr (parse_vtt content)
      else Inr content)"

text \<open>
  \<^verbatim>\<open>full_text = re.sub(r'\s+', ' ', full_text).strip()\<close>, and the test
  \<^verbatim>\<open>full_text and len(full_text) > 50\<close> that lets a text through.
\<close>

definition clean_up_text :: "string \<Rightarrow> string" where
  "clean_up_text full_text = py_strip (collapse_ws full_text)"

definition meaningful_content :: "string \<Rightarrow> bool" where
  "meaningful_content full_text = (full_text \<noteq> [] \<and> length full_text > 50)"

text \<open>What is done with the body of a track once it is downloaded with status 200.\<close>

definition process_subtitle_content ::
  "(string \<Rightarrow> exn + json) \<Rightarrow> string option \<Rightarrow> string \<Rightarrow> exn + string" where
  "process_subtitle_content loads selected_ext content =
     (if is_m3u8_playlist content
      then Inl (Raise Exception ''M3U8 playlist received instead of subtitles'')
      else (case parse_subtitle loads selected_ext content of
              Inl e \<Rightarrow> Inl e
            | Inr full_text \<Rightarrow>
                (if meaningful_content (clean_up_text full_text)
                 then Inr (clean_up_text full_text)
                 else Inl (Raise Exception ''Insufficient content extracted''))))"

section \<open>Library functions taken as parameters\<close>

text \<open>
  The parts of the Python libraries whose result is not determined by the model, given
  as the fields of a record:
  \<^item> \<open>netloc_accepted\<close>: whether \<^verbatim>\<open>urlparse\<close> accepts a network location that has
    brackets or characters outside ASCII (its checks of bracketed hosts and of the
    normalised form), \<open>False\<close> standing for its \<^verbatim>\<open>ValueError\<close>;
  \<^item> \<open>unquote\<close>: \<^verbatim>\<open>urllib.parse.unquote\<close> on a text that has a percent sign;
  \<^item> \<open>loads\<close>: \<^verbatim>\<open>json.loads\<close>;
  \<^item> \<open>format_value\<close>: the text an f-string gives for a value that is not a \<^verbatim>\<open>str\<close>;
  \<^item> \<open>seq_lt\<close>: \<^verbatim>\<open><\<close> on two lists.
\<close>

record pylib =
  netloc_accepted :: "string \<Rightarrow> bool"
  unquote :: "string \<Rightarrow> string"
  loads :: "string \<Rightarrow> exn + json"
  format_value :: "json \<Rightarrow> string"
  seq_lt :: "json list \<Rightarrow> json list \<Rightarrow> exn + bool"

section \<open>URLs: \<^verbatim>\<open>urlparse\<close> and \<^verbatim>\<open>parse_qs\<close>\<close>

text \<open>
  \<^verbatim>\<open>urllib.parse.urlparse\<close> as CPython 3.11 and 3.12 have it, for the three parts the
  server reads.
  Leading control characters and spaces are dropped, tabs and line ends are removed,
  a scheme is split off, then the network location after \<open>//\<close>, the fragment, the query
  and the parameters of the last path segment.
\<close>

record parsed_url =
  netloc :: string
  path :: string
  query :: string

definition is_ascii :: "char \<Rightarrow> bool" where
  "is_ascii c = ((of_char c :: nat) < 128)"

definition ascii_alpha :: "char \<Rightarrow> bool" where
  "ascii_alpha c =
     (c \<in> set ''abcdefghijklmnopqrstuvwxyz'' \<or> c \<in> set ''ABCDEFGHIJKLMNOPQRSTUVWXYZ'')"

definition scheme_char :: "char \<Rightarrow> bool" where
  "scheme_char c = (ascii_alpha c \<or> c \<in> set ''0123456789+-.'')"

definition ascii_lower :: "char \<Rightarrow> char" where
  "ascii_lower c =
     (if c \<in> set ''ABCDEFGHIJKLMNOPQRSTUVWXYZ'' then char_of (of_char c + (32 :: nat)) else c)"

definition uses_params :: "string list" where
  "uses_params =
     ['''', ''ftp'', ''hdl'', ''prospero'', ''http'', ''imap'', ''https'', ''shttp'', ''rtsp'',
      ''rtsps'', ''rtspu'', ''sip'', ''sips'', ''mms'', ''sftp'', ''tel'']"

definition split_scheme :: "string \<Rightarrow> string \<times> string" where
  "split_scheme url =
     (case partition_at '':'' url of
        None \<Rightarrow> ([], url)
      | Some (s, rest) \<Rightarrow>
          (if s \<noteq> [] \<and> ascii_alpha (hd s) \<and> list_all scheme_char s
           then (map ascii_lower s, rest) else ([], url)))"

definition netloc_delim :: "char \<Rightarrow> bool" where
  "netloc_delim c = (c = CHR ''/'' \<or> c = CHR ''?'' \<or> c = CHR ''#'')"

definition split_netloc :: "string \<Rightarrow> string \<times> string" where
  "split_netloc url =
     (if take 2 url = ''//''
      then (takeWhile (\<lambda>c. \<not> netloc_delim c) (drop 2 url),
            dropWhile (\<lambda>c. \<not> netloc_delim c) (drop 2 url))
      else ([], url))"

definition netloc_ok :: "pylib \<Rightarrow> string \<Rightarrow> bool" where
  "netloc_ok L nl =
     (if (CHR ''['' \<in> set nl) \<noteq> (CHR '']'' \<in> set nl) then False
      else if CHR ''['' \<in> set nl \<or> \<not> list_all is_ascii nl then netloc_accepted L nl
      else True)"

definition before_sep :: "string \<Rightarrow> string \<Rightarrow> string" where
  "before_sep sep s = (case partition_at sep s of None \<Rightarrow> s | Some (b, a) \<Rightarrow> b)"

definition after_sep :: "string \<Rightarrow> string \<Rightarrow> string" where
  "after_sep sep s = (case partition_at sep s of None \<Rightarrow> [] | Some (b, a) \<Rightarrow> a)"

definition split_params :: "string \<Rightarrow> string" where
  "split_params url =
     (rev (dropWhile (\<lambda>c. c \<noteq> CHR ''/'') (rev url)))
      @ before_sep '';'' (rev (takeWhile (\<lambda>c. c \<noteq> CHR ''/'') (rev url)))"

definition urlparse :: "pylib \<Rightarrow> string \<Rightarrow> exn + parsed_url" where
  "urlparse L url =
     (let url1 = filter (\<lambda>c. c \<noteq> CHR 0x09 \<and> c \<noteq> CHR 0x0D \<and> c \<noteq> CHR 0x0A)
                   (dropWhile (\<lambda>c. (of_char c :: nat) \<le> 32) url);
          sch = fst (split_scheme url1);
          nl = fst (split_netloc (snd (split_scheme url1)));
          url2 = before_sep ''#'' (snd (split_netloc (snd (split_scheme url1))));
          url3 = before_sep ''?'' url2
      in if \<not> netloc_ok L nl then Inl (Raise ValueError ''netloc is not accepted'')
         else Inr \<lparr>netloc = nl,
                   path = (if sch \<in> set uses_params \<and> CHR '';'' \<in> set url3
                           then split_params url3 else url3),
                   query = after_sep ''?'' url2\<rparr>)"

text \<open>
  \<^verbatim>\<open>parse_qsl(qs)\<close> with its defaults: fields are separated by \<open>&\<close>, a field without
  \<open>=\<close> or with an empty value is dropped, \<open>+\<close> stands for a space, and name and value
  are unquoted. \<^verbatim>\<open>parse_qs(qs).get(k, [None])[0]\<close> is the first value of the name \<open>k\<close>.
\<close>

definition py_unquote :: "pylib \<Rightarrow> string \<Rightarrow> string" where
  "py_unquote L s = (if CHR ''%'' \<in> set s then unquote L s else s)"

definition plus_to_space :: "string \<Rightarrow> string" where
  "plus_to_space s = map (\<lambda>c. if c = CHR ''+'' then CHR '' '' else c) s"

definition parse_field :: "pylib \<Rightarrow> string \<Rightarrow> (string \<times> string) list" where
  "parse_field L name_value =
     (case partition_at ''='' name_value of
        None \<Rightarrow> []
      | Some (n, v) \<Rightarrow>
          (if v = [] then []
           else [(py_unquote L (plus_to_space n), py_unquote L (plus_to_space v))]))"

definition parse_qsl :: "pylib \<Rightarrow> string \<Rightarrow> (string \<times> string) list" where
  "parse_qsl L qs = (if qs = [] then [] else concat (map (parse_field L) (py_split CHR ''&'' qs)))"

definition parse_qs_first :: "pylib \<Rightarrow> string \<Rightarrow> string \<Rightarrow> string option" where
  "parse_qs_first L qs k = map_of (parse_qsl L qs) k"

section \<open>\<^verbatim>\<open>clean_youtube_url\<close> and \<^verbatim>\<open>extract_youtube_video_id\<close>\<close>

text \<open>
  \<^verbatim>\<open>re.search(r'youtu\.be/([a-zA-Z0-9_-]+)', url)\<close>: the group of the leftmost match.
\<close>

definition id_char :: "char \<Rightarrow> bool" where
  "id_char c = (ascii_alpha c \<or> c \<in> set ''0123456789_-'')"

fun search_youtu_be :: "string \<Rightarrow> string option" where
  "search_youtu_be [] = None"
| "search_youtu_be (c # cs) =
     (if prefix ''youtu.be/'' (c # cs) \<and> takeWhile id_char (drop 9 (c # cs)) \<noteq> []
      then Some (takeWhile id_char (drop 9 (c # cs)))
      else search_youtu_be cs)"

text \<open>The truth value Python gives, in \<^verbatim>\<open>if video_id:\<close> and \<^verbatim>\<open>if subtitle_url:\<close>, to a value that is
  \<^verbatim>\<open>None\<close> or a text.\<close>

fun has_text :: "string option \<Rightarrow> bool" where
  "has_text None = False"
| "has_text (Some v) = (v \<noteq> [])"

definition clean_youtube_url :: "pylib \<Rightarrow> string \<Rightarrow> exn + string" where
  "clean_youtube_url L url =
     (case (if py_in ''youtu.be'' url then Inr (search_youtu_be url)
            else if py_in ''youtube.com'' url
            then (case urlparse L url of
                    Inl e \<Rightarrow> Inl e
                  | Inr parsed \<Rightarrow> Inr (parse_qs_first L (query parsed) ''v''))
            else Inr None) of
        Inl e \<Rightarrow> Inl e
      | Inr video_id \<Rightarrow>
          (if has_text video_id
           then Inr (''https://www.youtube.com/watch?v='' @ the video_id)
           else Inr url))"

definition extract_youtube_video_id :: "pylib \<Rightarrow> string \<Rightarrow> exn + string option" where
  "extract_youtube_video_id L url =
     (if py_in ''youtu.be'' url \<and> search_youtu_be url \<noteq> None then Inr (search_youtu_be url)
      else if py_in ''youtube.com'' url
      then (case urlparse L url of
              Inl e \<Rightarrow> Inl e
            | Inr parsed \<Rightarrow> Inr (parse_qs_first L (query parsed) ''v''))
      else Inr None)"

section \<open>\<^verbatim>\<open>sanitize_filename\<close>\<close>

text \<open>The name made for a URL; any exception in this part gives \<^verbatim>\<open>url_content.txt\<close>.\<close>

definition url_video_id :: "pylib \<Rightarrow> parsed_url \<Rightarrow> string option" where
  "url_video_id L parsed =
     (if py_in ''youtu.be'' (netloc parsed) then Some (strip_chars ''/'' (path parsed))
      else if py_in ''v='' (query parsed) then parse_qs_first L (query parsed) ''v''
      else None)"

definition url_file_name :: "pylib \<Rightarrow> string \<Rightarrow> string" where
  "url_file_name L filename =
     (case urlparse L filename of
        Inl e \<Rightarrow> ''url_content.txt''
      | Inr parsed \<Rightarrow>
          (if py_in ''youtube.com'' (netloc parsed) \<or> py_in ''youtu.be'' (netloc parsed)
           then (if has_text (url_video_id L parsed)
                 then ''youtube_'' @ the (url_video_id L parsed) @ ''.txt''
                 else ''youtube_video.txt'')
           else (if filter (\<lambda>p. p \<noteq> []) (py_split CHR ''/'' (path parsed)) \<noteq> []
                 then last (filter (\<lambda>p. p \<noteq> []) (py_split CHR ''/'' (path parsed)))
                 else map (\<lambda>c. if c = CHR ''.'' then CHR ''_'' else c) (netloc parsed)
                      @ ''.txt'')))"

text \<open>
  The characters of \<^verbatim>\<open>[<>:"/\\|?*\x00-\x1f]\<close>: nine punctuation characters and the
  control characters 0 to 31.
\<close>

definition reserved_char :: "char \<Rightarrow> bool" where
  "reserved_char c =
     (c \<in> set [CHR ''<'', CHR ''>'', CHR '':'', CHR 0x22, CHR ''/'', CHR 0x5C, CHR ''|'',
                CHR ''?'', CHR ''*'']
      \<or> (of_char c :: nat) < 32)"

text \<open>
  \<^verbatim>\<open>os.path.splitext\<close> of \<^verbatim>\<open>posixpath\<close>: the extension starts at the last dot, when
  that dot is behind the last \<open>/\<close> and some character between the two is not a dot. The
  name it is given here has no \<open>/\<close> and no backslash left, so that the one of
  \<^verbatim>\<open>ntpath\<close> gives the same.
  \<open>rfind\<close> is \<^verbatim>\<open>str.rfind\<close>, and \<open>slice_to k s\<close> is \<^verbatim>\<open>s[:k]\<close> for any integer \<open>k\<close>.
\<close>

definition rfind :: "char \<Rightarrow> string \<Rightarrow> int" where
  "rfind c s =
     (if c \<in> set s then int (length s) - 1 - int (length (takeWhile (\<lambda>d. d \<noteq> c) (rev s)))
      else - 1)"

definition splitext :: "string \<Rightarrow> string \<times> string" where
  "splitext p =
     (if rfind CHR ''.'' p > rfind CHR ''/'' p
         \<and> list_ex (\<lambda>c. c \<noteq> CHR ''.'')
              (drop (nat (rfind CHR ''/'' p + 1)) (take (nat (rfind CHR ''.'' p)) p))
      then (take (nat (rfind CHR ''.'' p)) p, drop (nat (rfind CHR ''.'' p)) p)
      else (p, []))"

definition slice_to :: "int \<Rightarrow> string \<Rightarrow> string" where
  "slice_to k s = (if k \<ge> 0 then take (nat k) s else take (length s - nat (- k)) s)"

definition is_url :: "string \<Rightarrow> bool" where
  "is_url filename =
     (prefix ''http://'' filename \<or> prefix ''https://'' filename \<or> prefix ''ftp://'' filename)"

definition replace_reserved :: "string \<Rightarrow> string" where
  "replace_reserved filename = map (\<lambda>c. if reserved_char c then CHR ''_'' else c) filename"

definition limit_length :: "string \<Rightarrow> string" where
  "limit_length filename =
     (if length filename > 255
      then (if snd (splitext filename) \<noteq> []
            then slice_to (255 - int (length (snd (splitext filename)))) (fst (splitext filename))
                 @ snd (splitext filename)
            else take 255 filename)
      else filename)"

definition cleaned_name :: "pylib \<Rightarrow> string \<Rightarrow> string" where
  "cleaned_name L filename =
     (if strip_chars ''. ''
           (replace_reserved (if is_url filename then url_file_name L filename else filename)) = []
      then ''unnamed_file''
      else strip_chars ''. ''
             (replace_reserved (if is_url filename then url_file_name L filename else filename)))"

definition sanitize_filename :: "pylib \<Rightarrow> string \<Rightarrow> string" where
  "sanitize_filename L filename = limit_length (cleaned_name L filename)"

section \<open>The yt-dlp method of \<^verbatim>\<open>get_youtube_transcript\<close>\<close>

text \<open>
  A subtitle track as yt-dlp lists it: \<^verbatim>\<open>sub.get('ext')\<close> and \<^verbatim>\<open>sub['url']\<close>, each \<open>None\<close>
  when the key is absent. Of the information on a video the server reads the English
  tracks of \<^verbatim>\<open>subtitles\<close> and of \<^verbatim>\<open>automatic_captions\<close>, \<open>None\<close> when there is no such entry.
\<close>

record track =
  sub_ext :: "string option"
  sub_url :: "string option"

record video_info =
  subtitles_en :: "track list option"
  automatic_captions_en :: "track list option"

definition priority_formats :: "string list" where
  "priority_formats = [''json3'', ''srv3'', ''vtt'', ''srv2'', ''srv1'']"

text \<open>
  The two loops that choose a track; the state is the pair of \<^verbatim>\<open>subtitle_url\<close> and
  \<^verbatim>\<open>selected_ext\<close>. A chosen track without a \<^verbatim>\<open>url\<close> key raises \<^verbatim>\<open>KeyError\<close>; one with an
  empty URL leaves \<^verbatim>\<open>subtitle_url\<close> false, and the search goes on.
\<close>

fun select_priority ::
  "string list \<Rightarrow> track list \<Rightarrow> string option \<times> string option
     \<Rightarrow> exn + (string option \<times> string option)" where
  "select_priority [] subtitles st = Inr st"
| "select_priority (fmt # fmts) subtitles st =
     (case find (\<lambda>sub. sub_ext sub = Some fmt) subtitles of
        None \<Rightarrow> (if has_text (fst st) then Inr st else select_priority fmts subtitles st)
      | Some sub \<Rightarrow>
          (case sub_url sub of
             None \<Rightarrow> Inl (Raise KeyError ''url'')
           | Some u \<Rightarrow>
               (if has_text (Some u) then Inr (Some u, Some fmt)
                else select_priority fmts subtitles (Some u, Some fmt))))"

definition select_fallback ::
  "track list \<Rightarrow> string option \<times> string option \<Rightarrow> exn + (string option \<times> string option)" where
  "select_fallback subtitles st =
     (if has_text (fst st) then Inr st
      else (case find (\<lambda>sub. sub_ext sub \<noteq> Some ''m3u8'') subtitles of
              None \<Rightarrow> Inr st
            | Some sub \<Rightarrow>
                (case sub_url sub of
                   None \<Rightarrow> Inl (Raise KeyError ''url'')
                 | Some u \<Rightarrow> Inr (Some u, sub_ext sub))))"

definition select_subtitle :: "track list \<Rightarrow> exn + (string option \<times> string option)" where
  "select_subtitle subtitles =
     (case select_priority priority_formats subtitles (None, None) of
        Inl e \<Rightarrow> Inl e
      | Inr st \<Rightarrow> select_fallback subtitles st)"

text \<open>
  The outside world of \<^verbatim>\<open>get_youtube_transcript\<close>: the two availability flags, and what
  each call to yt-dlp, to \<^verbatim>\<open>requests.get\<close> and to the transcript API answers, an
  exception or a value. A call answers the same each time it is made. A transcript of
  the API carries the answer of its own \<^verbatim>\<open>fetch()\<close>; of the entries fetched only the
  texts are kept.
\<close>

record http_response =
  status_code :: int
  response_text :: string

record transcript =
  language :: string
  language_code :: string
  is_generated :: bool
  fetch :: "exn + string list"

record env =
  YTDLP_AVAILABLE :: bool
  YOUTUBE_API_AVAILABLE :: bool
  extract_info :: "string \<Rightarrow> exn + video_info"
  requests_get :: "string \<Rightarrow> exn + http_response"
  get_transcript :: "string \<Rightarrow> exn + string list"
  list_transcripts :: "string \<Rightarrow> exn + transcript list"

text \<open>The calls made to the outside, in the order they are made.\<close>

datatype call =
  ExtractInfo string | HttpGet string | GetTranscript string | ListTranscripts string
  | Fetch string

record transcript_result =
  res_text :: string
  res_video_id :: string
  res_language :: string
  res_is_generated :: bool

fun has_tracks :: "track list option \<Rightarrow> bool" where
  "has_tracks None = False"
| "has_tracks (Some ts) = (ts \<noteq> [])"

text \<open>
  The block under \<^verbatim>\<open>if YTDLP_AVAILABLE\<close>, before its \<^verbatim>\<open>except\<close> clause. The outcome is an
  exception raised in the block, a returned result, or \<open>None\<close> when the block ends
  without returning.
\<close>

definition ytdlp_download ::
  "pylib \<Rightarrow> env \<Rightarrow> string \<Rightarrow> string \<Rightarrow> string option
     \<Rightarrow> call list \<times> (exn + transcript_result option)" where
  "ytdlp_download L E video_id subtitle_url selected_ext =
     (case requests_get E subtitle_url of
        Inl e \<Rightarrow> ([HttpGet subtitle_url], Inl e)
      | Inr response \<Rightarrow>
          (if status_code response = 200
           then (case process_subtitle_content (loads L) selected_ext (response_text response) of
                   Inl e \<Rightarrow> ([HttpGet subtitle_url], Inl e)
                 | Inr full_text \<Rightarrow>
                     ([HttpGet subtitle_url],
                      Inr (Some \<lparr>res_text = full_text, res_video_id = video_id,
                                 res_language = ''en'', res_is_generated = True\<rparr>)))
           else ([HttpGet subtitle_url], Inr None)))"

text \<open>
  \<^verbatim>\<open>info.get('subtitles', {}).get('en') or info.get('automatic_captions', {}).get('en')\<close>
\<close>

definition english_tracks :: "video_info \<Rightarrow> track list option" where
  "english_tracks info =
     (if has_tracks (subtitles_en info) then subtitles_en info else automatic_captions_en info)"

definition ytdlp_method ::
  "pylib \<Rightarrow> env \<Rightarrow> string \<Rightarrow> call list \<times> (exn + transcript_result option)" where
  "ytdlp_method L E video_id =
     (case extract_info E (''https://www.youtube.com/watch?v='' @ video_id) of
        Inl e \<Rightarrow> ([ExtractInfo (''https://www.youtube.com/watch?v='' @ video_id)], Inl e)
      | Inr info \<Rightarrow>
          (if has_tracks (english_tracks info)
           then (case select_subtitle (the (english_tracks info)) of
                   Inl e \<Rightarrow>
                     ([ExtractInfo (''https://www.youtube.com/watch?v='' @ video_id)], Inl e)
                 | Inr (subtitle_url, selected_ext) \<Rightarrow>
                     (if has_text subtitle_url
                      then (ExtractInfo (''https://www.youtube.com/watch?v='' @ video_id)
                              # fst (ytdlp_download L E video_id (the subtitle_url) selected_ext),
                            snd (ytdlp_download L E video_id (the subtitle_url) selected_ext))
                      else ([ExtractInfo (''https://www.youtube.com/watch?v='' @ video_id)],
                            Inr None)))
           else ([ExtractInfo (''https://www.youtube.com/watch?v='' @ video_id)], Inr None)))"

section \<open>The transcript API method of \<^verbatim>\<open>get_youtube_transcript\<close>\<close>

text \<open>
  \<^verbatim>\<open>transcript_list.find_transcript(codes)\<close> of youtube-transcript-api: for each code in
  turn, the manually created transcript of that code, else the generated one; a list
  iterates its manually created transcripts first.
\<close>

fun find_transcript :: "transcript list \<Rightarrow> string list \<Rightarrow> exn + transcript" where
  "find_transcript ts [] = Inl (Raise NoTranscriptFound ''No transcripts were found'')"
| "find_transcript ts (code # codes) =
     (case find (\<lambda>t. language_code t = code \<and> \<not> is_generated t) ts of
        Some t \<Rightarrow> Inr t
      | None \<Rightarrow>
          (case find (\<lambda>t. language_code t = code \<and> is_generated t) ts of
             Some t \<Rightarrow> Inr t
           | None \<Rightarrow> find_transcript ts codes))"

text \<open>
  The loop over all transcripts that runs when the fetch of the chosen one fails: the
  fetches tried, and the first transcript whose fetch answers, with its entries.
\<close>

fun fetch_any :: "transcript list \<Rightarrow> call list \<times> (transcript \<times> string list) option" where
  "fetch_any [] = ([], None)"
| "fetch_any (alt # alts) =
     (case fetch alt of
        Inr entries \<Rightarrow> ([Fetch (language_code alt)], Some (alt, entries))
      | Inl e \<Rightarrow> (Fetch (language_code alt) # fst (fetch_any alts), snd (fetch_any alts)))"

text \<open>The \<^verbatim>\<open>except\<close> clauses that close the method.\<close>

fun api_except :: "exn \<Rightarrow> exn" where
  "api_except (Raise TranscriptsDisabled msg) =
     Raise Exception ''Transcripts are disabled for this video''"
| "api_except (Raise NoTranscriptFound msg) =
     Raise Exception
       ''No transcripts found for this video. The video may not have captions/subtitles available.''"
| "api_except (Raise VideoUnavailable msg) = Raise Exception ''Video is unavailable or private''"
| "api_except e = e"

definition choose_transcript :: "transcript list \<Rightarrow> exn + transcript" where
  "choose_transcript ts =
     (case find_transcript ts [''en'', ''en-US'', ''en-GB''] of
        Inr t \<Rightarrow> Inr t
      | Inl (Raise cls msg) \<Rightarrow>
          (if cls = NoTranscriptFound
           then (case ts of
                   [] \<Rightarrow> Inl (Raise NoTranscriptFound ''No transcripts were found'')
                 | t # rest \<Rightarrow> Inr t)
           else Inl (Raise cls msg)))"

definition api_result :: "string \<Rightarrow> transcript \<Rightarrow> string list \<Rightarrow> transcript_result" where
  "api_result video_id t entries =
     \<lparr>res_text = py_join [CHR 0x0A] entries, res_video_id = video_id,
      res_language = language t, res_is_generated = is_generated t\<rparr>"

definition api_advanced :: "env \<Rightarrow> string \<Rightarrow> call list \<times> (exn + transcript_result)" where
  "api_advanced E video_id =
     (case list_transcripts E video_id of
        Inl e \<Rightarrow> ([ListTranscripts video_id], Inl (api_except e))
      | Inr ts \<Rightarrow>
          (case choose_transcript ts of
             Inl e \<Rightarrow> ([ListTranscripts video_id], Inl (api_except e))
           | Inr t \<Rightarrow>
               (case fetch t of
                  Inr entries \<Rightarrow>
                    ([ListTranscripts video_id, Fetch (language_code t)],
                     Inr (api_result video_id t entries))
                | Inl fetch_error \<Rightarrow>
                    (case snd (fetch_any ts) of
                       Some (alt, entries) \<Rightarrow>
                         ([ListTranscripts video_id, Fetch (language_code t)] @ fst (fetch_any ts),
                          Inr (api_result video_id alt entries))
                     | None \<Rightarrow>
                         ([ListTranscripts video_id, Fetch (language_code t)] @ fst (fetch_any ts),
                          Inl (Raise Exception
                                 (''Could not fetch transcript. Try: All transcript fetches failed. Original error: ''
                                  @ exn_str fetch_error)))))))"

definition api_method :: "env \<Rightarrow> string \<Rightarrow> call list \<times> (exn + transcript_result)" where
  "api_method E video_id =
     (case get_transcript E video_id of
        Inr entries \<Rightarrow>
          ([GetTranscript video_id],
           Inr \<lparr>res_text = py_join [CHR 0x0A] entries, res_video_id = video_id,
                res_language = ''en'', res_is_generated = True\<rparr>)
      | Inl e \<Rightarrow>
          (GetTranscript video_id # fst (api_advanced E video_id), snd (api_advanced E video_id)))"

section \<open>\<^verbatim>\<open>get_youtube_transcript\<close>\<close>

text \<open>
  The part behind the yt-dlp block (\<^verbatim>\<open># Fallback to youtube-transcript-api\<close>), then the
  whole function: the video identifier, the yt-dlp block when yt-dlp is there, whose
  exceptions are all caught and logged, and the fallback unless the block returned.
\<close>

definition api_fallback :: "env \<Rightarrow> string \<Rightarrow> call list \<times> (exn + transcript_result)" where
  "api_fallback E video_id =
     (if \<not> YOUTUBE_API_AVAILABLE E
      then ([], Inl (Raise Exception
              ''No YouTube transcript extraction method available. Install youtube-transcript-api or yt-dlp''))
      else api_method E video_id)"

definition get_youtube_transcript ::
  "pylib \<Rightarrow> env \<Rightarrow> string \<Rightarrow> call list \<times> (exn + transcript_result)" where
  "get_youtube_transcript L E url =
     (case extract_youtube_video_id L url of
        Inl e \<Rightarrow> ([], Inl e)
      | Inr video_id \<Rightarrow>
          (if \<not> has_text video_id
           then ([], Inl (Raise ValueError (''Could not extract video ID from URL: '' @ url)))
           else if YTDLP_AVAILABLE E
           then (case snd (ytdlp_method L E (the video_id)) of
                   Inr (Some result) \<Rightarrow> (fst (ytdlp_method L E (the video_id)), Inr result)
                 | Inr None \<Rightarrow>
                     (fst (ytdlp_method L E (the video_id)) @ fst (api_fallback E (the video_id)),
                      snd (api_fallback E (the video_id)))
                 | Inl ytdlp_error \<Rightarrow>
                     (fst (ytdlp_method L E (the video_id)) @ fst (api_fallback E (the video_id)),
                      snd (api_fallback E (the video_id))))
           else api_fallback E (the video_id)))"

section \<open>Session storage\<close>

text \<open>
  The disk, as far as the session endpoints see it: the files by their path, and
  whether a path can be written (a directory made there, a file opened for writing). A
  path is the text that joining its parts with \<open>/\<close> gives. A file written by
  \<^verbatim>\<open>json.dump\<close> is kept as the value dumped, which \<^verbatim>\<open>json.load\<close> gives back; any other
  text file is parsed by \<open>loads\<close>; a file that cannot be opened raises.
\<close>

datatype stored_file = JsonFile json | TextFile string | Unreadable

record disk =
  files :: "string \<Rightarrow> stored_file option"
  can_write :: "string \<Rightarrow> bool"

fun read_json :: "pylib \<Rightarrow> stored_file \<Rightarrow> exn + json" where
  "read_json L (JsonFile v) = Inr v"
| "read_json L (TextFile s) = loads L s"
| "read_json L Unreadable = Inl (Raise OSError ''cannot open the file'')"

text \<open>
  What an endpoint answers: the payload of a success, or the HTTP status and the error
  text of a failure.
\<close>

datatype 'a response = Success 'a | Failure int string

text \<open>\<^verbatim>\<open>f"{v}"\<close>: a text as it is, any other value as the library formats it.\<close>

definition fstring :: "pylib \<Rightarrow> json \<Rightarrow> string" where
  "fstring L v = (case v of JStr s \<Rightarrow> s | _ \<Rightarrow> format_value L v)"

subsection \<open>\<^verbatim>\<open>save_session\<close>\<close>

text \<open>
  The loop that saves the uploaded files of the messages. It returns the disk as the
  writes made so far leave it, and the exception that stopped it, if one did.
\<close>

definition save_file :: "pylib \<Rightarrow> string \<Rightarrow> disk \<Rightarrow> json \<Rightarrow> disk \<times> exn option" where
  "save_file L chat_folder D file_data =
     (case py_get file_data ''content'' JNull of
        Inl e \<Rightarrow> (D, Some e)
      | Inr c \<Rightarrow>
          (case py_get file_data ''fileData'' JNull of
             Inl e \<Rightarrow> (D, Some e)
           | Inr fd \<Rightarrow>
               (if truthy (py_or c fd)
                then (case py_get file_data ''name'' (JStr ''unnamed_file'') of
                        Inl e \<Rightarrow> (D, Some e)
                      | Inr (JStr original_name) \<Rightarrow>
                          (if \<not> can_write D (chat_folder @ ''/uploads'')
                           then (D, Some (Raise OSError ''cannot make the directory''))
                           else (case py_or c fd of
                                   JStr content \<Rightarrow>
                                     (if can_write D (chat_folder @ ''/uploads/''
                                            @ sanitize_filename L original_name)
                                      then (D\<lparr>files := (files D)
                                                (chat_folder @ ''/uploads/''
                                                   @ sanitize_filename L original_name
                                                 \<mapsto> TextFile content)\<rparr>, None)
                                      else (D, Some (Raise OSError ''cannot write the file'')))
                                 | other \<Rightarrow>
                                     (D, Some (Raise TypeError ''a bytes-like object is required''))))
                      | Inr other \<Rightarrow>
                          (D, Some (Raise AttributeError ''object has no attribute startswith'')))
                else (D, None))))"

fun save_files :: "pylib \<Rightarrow> string \<Rightarrow> disk \<Rightarrow> json list \<Rightarrow> disk \<times> exn option" where
  "save_files L chat_folder D [] = (D, None)"
| "save_files L chat_folder D (file_data # rest) =
     (case save_file L chat_folder D file_data of
        (D', Some e) \<Rightarrow> (D', Some e)
      | (D', None) \<Rightarrow> save_files L chat_folder D' rest)"

definition save_message :: "pylib \<Rightarrow> string \<Rightarrow> disk \<Rightarrow> json \<Rightarrow> disk \<times> exn option" where
  "save_message L chat_folder D msg =
     (case py_get msg ''files'' JNull of
        Inl e \<Rightarrow> (D, Some e)
      | Inr fs \<Rightarrow>
          (if truthy fs
           then (case py_iter fs of
                   Inl e \<Rightarrow> (D, Some e)
                 | Inr file_datas \<Rightarrow> save_files L chat_folder D file_datas)
           else (D, None)))"

fun save_messages :: "pylib \<Rightarrow> string \<Rightarrow> disk \<Rightarrow> json list \<Rightarrow> disk \<times> exn option" where
  "save_messages L chat_folder D [] = (D, None)"
| "save_messages L chat_folder D (msg # rest) =
     (case save_message L chat_folder D msg of
        (D', Some e) \<Rightarrow> (D', Some e)
      | (D', None) \<Rightarrow> save_messages L chat_folder D' rest)"

text \<open>
  The record written to \<^verbatim>\<open>session.json\<close>; \<open>now1\<close> and \<open>now2\<close> are the two readings of the
  clock.
\<close>

definition session_data_of :: "json \<Rightarrow> json \<Rightarrow> json \<Rightarrow> json \<Rightarrow> string \<Rightarrow> json" where
  "session_data_of chat_id chat_title created_at messages now2 =
     JObj [(''chat_id'', chat_id), (''title'', chat_title), (''created_at'', created_at),
           (''updated_at'', JStr now2), (''messages'', messages)]"

definition write_session ::
  "pylib \<Rightarrow> string \<Rightarrow> disk \<Rightarrow> json \<Rightarrow> json \<Rightarrow> json \<Rightarrow> disk \<times> (json \<times> string) response" where
  "write_session L chat_folder D chat_id session_data messages =
     (if \<not> can_write D chat_folder then (D, Failure 500 ''cannot make the directory'')
      else if \<not> can_write D (chat_folder @ ''/session.json'')
      then (D, Failure 500 ''cannot write the file'')
      else (case py_iter messages of
              Inl e \<Rightarrow>
                (D\<lparr>files := (files D)(chat_folder @ ''/session.json'' \<mapsto> JsonFile session_data)\<rparr>,
                 Failure 500 (exn_str e))
            | Inr msgs \<Rightarrow>
                (case save_messages L chat_folder
                        (D\<lparr>files := (files D)
                             (chat_folder @ ''/session.json'' \<mapsto> JsonFile session_data)\<rparr>) msgs of
                   (D', Some e) \<Rightarrow> (D', Failure 500 (exn_str e))
                 | (D', None) \<Rightarrow> (D', Success (chat_id, chat_folder)))))"

definition save_session ::
  "pylib \<Rightarrow> string option \<Rightarrow> string \<Rightarrow> string \<Rightarrow> disk \<Rightarrow> json
     \<Rightarrow> disk \<times> (json \<times> string) response" where
  "save_session L STORAGE_PATH now1 now2 D data =
     (if \<not> has_text STORAGE_PATH then (D, Failure 400 ''Storage path not configured'')
      else (case py_get data ''chat_id'' JNull of
              Inl e \<Rightarrow> (D, Failure 500 (exn_str e))
            | Inr chat_id \<Rightarrow>
                (case py_get data ''chat_title'' (JStr ''Untitled Chat'') of
                   Inl e \<Rightarrow> (D, Failure 500 (exn_str e))
                 | Inr chat_title \<Rightarrow>
                     (case py_get data ''messages'' (JArr []) of
                        Inl e \<Rightarrow> (D, Failure 500 (exn_str e))
                      | Inr messages \<Rightarrow>
                          (if \<not> truthy chat_id then (D, Failure 400 ''No chat_id provided'')
                           else (case py_get data ''created_at'' (JStr now1) of
                                   Inl e \<Rightarrow> (D, Failure 500 (exn_str e))
                                 | Inr created_at \<Rightarrow>
                                     write_session L
                                       (the STORAGE_PATH @ ''/chat_'' @ fstring L chat_id) D chat_id
                                       (session_data_of chat_id chat_title created_at messages now2)
                                       messages))))))"

subsection \<open>\<^verbatim>\<open>load_session\<close> and \<^verbatim>\<open>load_sessions\<close>\<close>

definition load_session :: "pylib \<Rightarrow> string option \<Rightarrow> disk \<Rightarrow> string \<Rightarrow> json response" where
  "load_session L STORAGE_PATH D chat_id =
     (if \<not> has_text STORAGE_PATH then Failure 400 ''Storage path not configured''
      else (case files D (the STORAGE_PATH @ ''/chat_'' @ chat_id @ ''/session.json'') of
              None \<Rightarrow> Failure 404 ''Session not found''
            | Some f \<Rightarrow>
                (case read_json L f of
                   Inl e \<Rightarrow> Failure 500 (exn_str e)
                 | Inr session_data \<Rightarrow> Success session_data)))"

record session_summary =
  sum_chat_id :: json
  sum_title :: json
  sum_created_at :: json
  sum_updated_at :: json
  message_count :: nat

definition summary_of :: "json \<Rightarrow> exn + session_summary" where
  "summary_of session_data =
     (case py_get session_data ''chat_id'' JNull of
        Inl e \<Rightarrow> Inl e
      | Inr cid \<Rightarrow>
          (case py_get session_data ''title'' JNull of
             Inl e \<Rightarrow> Inl e
           | Inr title \<Rightarrow>
               (case py_get session_data ''created_at'' JNull of
                  Inl e \<Rightarrow> Inl e
                | Inr created \<Rightarrow>
                    (case py_get session_data ''updated_at'' JNull of
                       Inl e \<Rightarrow> Inl e
                     | Inr updated \<Rightarrow>
                         (case py_get session_data ''messages'' (JArr []) of
                            Inl e \<Rightarrow> Inl e
                          | Inr messages \<Rightarrow>
                              (case py_len messages of
                                 Inl e \<Rightarrow> Inl e
                               | Inr n \<Rightarrow>
                                   Inr \<lparr>sum_chat_id = cid, sum_title = title,
                                        sum_created_at = created, sum_updated_at = updated,
                                        message_count = n\<rparr>))))))"

text \<open>
  The loop over \<^verbatim>\<open>storage_dir.glob('chat_*')\<close>. The listing gives, in the order of the
  glob, the path of each entry and whether it is a directory.
\<close>

fun collect_sessions :: "pylib \<Rightarrow> disk \<Rightarrow> (string \<times> bool) list \<Rightarrow> exn + session_summary list" where
  "collect_sessions L D [] = Inr []"
| "collect_sessions L D ((chat_folder, is_dir) # rest) =
     (if is_dir
      then (case files D (chat_folder @ ''/session.json'') of
              None \<Rightarrow> collect_sessions L D rest
            | Some f \<Rightarrow>
                (case read_json L f of
                   Inl e \<Rightarrow> Inl e
                 | Inr session_data \<Rightarrow>
                     (case summary_of session_data of
                        Inl e \<Rightarrow> Inl e
                      | Inr s \<Rightarrow>
                          (case collect_sessions L D rest of
                             Inl e \<Rightarrow> Inl e
                           | Inr ss \<Rightarrow> Inr (s # ss)))))
      else collect_sessions L D rest)"

text \<open>
  \<^verbatim>\<open><\<close> on two keys: texts compare by code points, numbers and truth values as numbers,
  lists as the library says, and every other pair raises \<^verbatim>\<open>TypeError\<close>.
\<close>

fun num_of :: "json \<Rightarrow> rat option" where
  "num_of (JNum n) = Some n"
| "num_of (JBool b) = Some (if b then 1 else 0)"
| "num_of v = None"

fun py_lt :: "pylib \<Rightarrow> json \<Rightarrow> json \<Rightarrow> exn + bool" where
  "py_lt L (JStr x) (JStr y) = Inr (x < y)"
| "py_lt L (JArr xs) (JArr ys) = seq_lt L xs ys"
| "py_lt L a b =
     (case (num_of a, num_of b) of
        (Some m, Some n) \<Rightarrow> Inr (m < n)
      | other \<Rightarrow> Inl (Raise TypeError ''< not supported between instances''))"

text \<open>
  \<^verbatim>\<open>xs.sort(key=key, reverse=True)\<close>: the list is reversed, sorted stably by \<^verbatim>\<open><\<close> on the
  keys, and reversed again. The sort is an insertion sort, which compares every item
  but one with another item; it raises what a comparison raises.
\<close>

fun py_insort :: "pylib \<Rightarrow> ('a \<Rightarrow> json) \<Rightarrow> 'a \<Rightarrow> 'a list \<Rightarrow> exn + 'a list" where
  "py_insort L key x [] = Inr [x]"
| "py_insort L key x (y # ys) =
     (case py_lt L (key y) (key x) of
        Inl e \<Rightarrow> Inl e
      | Inr False \<Rightarrow> Inr (x # y # ys)
      | Inr True \<Rightarrow>
          (case py_insort L key x ys of Inl e \<Rightarrow> Inl e | Inr zs \<Rightarrow> Inr (y # zs)))"

fun py_sort :: "pylib \<Rightarrow> ('a \<Rightarrow> json) \<Rightarrow> 'a list \<Rightarrow> exn + 'a list" where
  "py_sort L key [] = Inr []"
| "py_sort L key (x # xs) =
     (case py_sort L key xs of Inl e \<Rightarrow> Inl e | Inr ys \<Rightarrow> py_insort L key x ys)"

definition py_sort_reverse :: "pylib \<Rightarrow> ('a \<Rightarrow> json) \<Rightarrow> 'a list \<Rightarrow> exn + 'a list" where
  "py_sort_reverse L key xs =
     (case py_sort L key (rev xs) of Inl e \<Rightarrow> Inl e | Inr ys \<Rightarrow> Inr (rev ys))"

definition load_sessions ::
  "pylib \<Rightarrow> string option \<Rightarrow> (string \<times> bool) list \<Rightarrow> disk \<Rightarrow> session_summary list response" where
  "load_sessions L STORAGE_PATH listing D =
     (if \<not> has_text STORAGE_PATH then Failure 400 ''Storage path not configured''
      else (case collect_sessions L D listing of
              Inl e \<Rightarrow> Failure 500 (exn_str e)
            | Inr sessions \<Rightarrow>
                (case py_sort_reverse L sum_updated_at sessions of
                   Inl e \<Rightarrow> Failure 500 (exn_str e)
                 | Inr sorted_sessions \<Rightarrow> Success sorted_sessions)))"

section \<open>Predicates used to state the properties\<close>

text \<open>
  A text is single-spaced when its only whitespace characters are spaces, no two spaces
  are next to each other, and it neither starts nor ends with a space.
\<close>

definition single_spaced :: "string \<Rightarrow> bool" where
  "single_spaced t =
     (list_all (\<lambda>c. isspace c \<longrightarrow> c = CHR '' '') t \<and> \<not> py_in ''  '' t
      \<and> \<not> prefix '' '' t \<and> \<not> suffix '' '' t)"

text \<open>
  An instance of the library parameters for the examples: every network location is
  accepted, unquoting changes nothing, no text parses as JSON.
\<close>

definition plain_lib :: pylib where
  "plain_lib =
     \<lparr>netloc_accepted = (\<lambda>nl. True), unquote = (\<lambda>s. s),
      loads = (\<lambda>s. Inl (Raise ValueError ''not JSON'')), format_value = (\<lambda>v. ''?''),
      seq_lt = (\<lambda>xs ys. Inl (Raise TypeError ''lists are not compared''))\<rparr>"

text \<open>
  A world for the examples in which both libraries are installed and every call to the
  outside raises; an example changes the answers it needs.
\<close>

definition offline_world :: env where
  "offline_world =
     \<lparr>YTDLP_AVAILABLE = True, YOUTUBE_API_AVAILABLE = True,
      extract_info = (\<lambda>u. Inl (Raise Exception ''no answer'')),
      requests_get = (\<lambda>u. Inl (Raise Exception ''no answer'')),
      get_transcript = (\<lambda>v. Inl (Raise Exception ''no answer'')),
      list_transcripts = (\<lambda>v. Inl (Raise Exception ''no answer''))\<rparr>"

text \<open>
  For an entry of the listing of the storage directory: the record file that
  \<^verbatim>\<open>load_sessions\<close> opens for it, if the entry is a directory that has one, and the summary
  made from that file. A summary has a text key when its \<^verbatim>\<open>updated_at\<close> is a text, which
  is then its updated text.
\<close>

definition record_file :: "disk \<Rightarrow> string \<times> bool \<Rightarrow> stored_file option" where
  "record_file D entry = (if snd entry then files D (fst entry @ ''/session.json'') else None)"

definition entry_summary :: "pylib \<Rightarrow> disk \<Rightarrow> string \<times> bool \<Rightarrow> exn + session_summary" where
  "entry_summary L D entry =
     (case read_json L (the (record_file D entry)) of
        Inl e \<Rightarrow> Inl e
      | Inr session_data \<Rightarrow> summary_of session_data)"

definition updated_text :: "session_summary \<Rightarrow> string" where
  "updated_text s = (case sum_updated_at s of JStr u \<Rightarrow> u | other \<Rightarrow> [])"

definition text_key :: "session_summary \<Rightarrow> bool" where
  "text_key s = (case sum_updated_at s of JStr u \<Rightarrow> True | other \<Rightarrow> False)"

text \<open>A session record for the examples, as \<^verbatim>\<open>save_session\<close> writes it.\<close>

definition example_record :: "string \<Rightarrow> string \<Rightarrow> json" where
  "example_record chat_id updated =
     JObj [(''chat_id'', JStr chat_id), (''title'', JStr ''Notes''),
           (''created_at'', JStr ''2024-01-01T09:00:00''), (''updated_at'', JStr updated),
           (''messages'', JArr [JObj [(''role'', JStr ''user'')]])]"

section \<open>Stripping and collapsing whitespace\<close>

lemma strip_where_Nil [simp]: "strip_where P [] = []"
  by (simp add: strip_where_def)

lemma strip_where_parts: "\<exists>a b. s = a @ strip_where P s @ b \<and> list_all P a \<and> list_all P b"
proof -
  let ?w = "dropWhile P s"
  have 1: "s = takeWhile P s @ ?w" by simp
  have 2: "rev ?w = takeWhile P (rev ?w) @ dropWhile P (rev ?w)" by simp
  have "?w = rev (dropWhile P (rev ?w)) @ rev (takeWhile P (rev ?w))"
    by (metis rev_append rev_rev_ident takeWhile_dropWhile_id)
  then have "s = takeWhile P s @ strip_where P s @ rev (takeWhile P (rev ?w))"
    using 1 by (simp add: strip_where_def)
  moreover have "list_all P (takeWhile P s)" 
    by (simp add: list_all_iff) (meson set_takeWhileD)
  moreover have "list_all P (rev (takeWhile P (rev ?w)))"
    by (simp add: list_all_iff) (meson set_takeWhileD)
  ultimately show ?thesis by blast
qed

lemma strip_where_ends:
  "strip_where P s \<noteq> [] \<Longrightarrow> \<not> P (hd (strip_where P s)) \<and> \<not> P (last (strip_where P s))"
proof -
  assume ne: "strip_where P s \<noteq> []"
  let ?w = "dropWhile P s"
  let ?v = "dropWhile P (rev ?w)"
  from ne have v: "?v \<noteq> []" by (simp add: strip_where_def)
  then have w: "?w \<noteq> []" by (metis dropWhile.simps(1) rev_is_Nil_conv)
  have "\<not> P (hd ?v)" using v by (rule hd_dropWhile)
  then have l: "\<not> P (last (strip_where P s))" using v by (simp add: strip_where_def last_rev)
  have "?w = rev ?v @ rev (takeWhile P (rev ?w))"
    by (metis rev_append rev_rev_ident takeWhile_dropWhile_id)
  then have "hd ?w = hd (rev ?v)" using v by (metis hd_append2 rev_is_Nil_conv)
  moreover have "\<not> P (hd ?w)" using w by (rule hd_dropWhile)
  ultimately have "\<not> P (hd (strip_where P s))" by (simp add: strip_where_def)
  with l show ?thesis by simp
qed

lemma strip_where_id:
  "s \<noteq> [] \<Longrightarrow> \<not> P (hd s) \<Longrightarrow> \<not> P (last s) \<Longrightarrow> strip_where P s = s"
proof -
  assume ne: "s \<noteq> []" and h: "\<not> P (hd s)" and l: "\<not> P (last s)"
  from h have 1: "dropWhile P s = s" by (simp add: dropWhile_eq_self_iff)
  from ne l have "\<not> P (hd (rev s))" by (simp add: hd_rev)
  then have 2: "dropWhile P (rev s) = rev s" by (simp add: dropWhile_eq_self_iff)
  show ?thesis by (simp add: strip_where_def 1 2)
qed

lemma strip_where_idem: "strip_where P (strip_where P s) = strip_where P s"
proof (cases "strip_where P s = []")
  case True then show ?thesis by simp
next
  case False
  with strip_where_ends [OF False] show ?thesis by (simp add: strip_where_id)
qed

lemma set_strip_where: "set (strip_where P s) \<subseteq> set s"
  using strip_where_parts [of s P] by (metis Un_iff set_append subsetI)

lemma length_strip_where: "length (strip_where P s) \<le> length s"
  using strip_where_parts [of s P] by (metis le_add1 le_add2 le_trans length_append)


lemma isspace_space [simp]: "isspace CHR '' ''"
  by (simp add: isspace_def)

lemma collapse_ws_hd:
  "s \<noteq> [] \<Longrightarrow> \<not> isspace (hd s) \<Longrightarrow> collapse_ws s \<noteq> [] \<and> hd (collapse_ws s) = hd s"
  by (cases s) auto

lemma collapse_ws_chars: "list_all (\<lambda>c. isspace c \<longrightarrow> c = CHR '' '') (collapse_ws s)"
  by (induction s rule: collapse_ws.induct) auto

lemma collapse_ws_no_double: "\<not> py_in ''  '' (collapse_ws s)"
proof (induction s rule: collapse_ws.induct)
  case 1
  then show ?case by simp
next
  case (2 c cs)
  show ?case
  proof (cases "isspace c")
    case True
    let ?r = "dropWhile isspace cs"
    have "collapse_ws ?r = [] \<or> hd (collapse_ws ?r) \<noteq> CHR '' ''"
    proof (cases "?r = []")
      case True
      then have "collapse_ws ?r = []" by (simp only: collapse_ws.simps)
      then show ?thesis by blast
    next
      case False
      then have "\<not> isspace (hd ?r)" by (rule hd_dropWhile)
      with False collapse_ws_hd [of ?r] have "hd (collapse_ws ?r) = hd ?r" by simp
      with \<open>\<not> isspace (hd ?r)\<close> show ?thesis by auto
    qed
    moreover from True "2.IH"(1) have "\<not> py_in ''  '' (collapse_ws ?r)" by simp
    ultimately show ?thesis using True by (cases "collapse_ws ?r") auto
  next
    case False
    then have "c \<noteq> CHR '' ''" by auto
    with False "2.IH"(2) show ?thesis by (cases "collapse_ws cs") auto
  qed
qed

lemma length_collapse_ws: "length (collapse_ws s) \<le> length s"
proof (induction s rule: collapse_ws.induct)
  case 1
  then show ?case by simp
next
  case (2 c cs)
  have "length (dropWhile isspace cs) \<le> length cs" by (rule length_dropWhile_le)
  with 2 show ?case by (cases "isspace c") auto
qed

lemma py_in_mono: "py_in p v \<Longrightarrow> py_in p (a @ v @ b)"
proof (induction a)
  case Nil
  then show ?case
  proof (induction v)
    case Nil
    then show ?case by (cases b) auto
  next
    case (Cons c cs)
    from Cons.prems consider "prefix p (c # cs)" | "py_in p cs" by auto
    then show ?case
    proof cases
      case 1
      then have "prefix p ((c # cs) @ b)" by (rule prefix_prefix)
      then show ?thesis by simp
    next
      case 2
      with Cons.IH show ?thesis by simp
    qed
  qed
next
  case (Cons x a)
  then show ?case by simp
qed

lemma collapse_ws_all_space: "list_all isspace s \<Longrightarrow> s \<noteq> [] \<Longrightarrow> collapse_ws s = '' ''"
proof -
  assume a: "list_all isspace s" and ne: "s \<noteq> []"
  then obtain c cs where s: "s = c # cs" by (cases s) auto
  with a have c: "isspace c" and "dropWhile isspace cs = []" by (auto simp: list_all_iff)
  then have "collapse_ws (dropWhile isspace cs) = []" by (simp only: collapse_ws.simps)
  with s c show ?thesis by (simp only: collapse_ws.simps if_True)
qed

lemma clean_up_text_single_spaced: "single_spaced (clean_up_text t)"
proof -
  let ?u = "collapse_ws t"
  let ?v = "py_strip ?u"
  obtain a b where u: "?u = a @ ?v @ b"
    using strip_where_parts [of ?u isspace] by (auto simp: py_strip_def)
  have "set ?v \<subseteq> set ?u" unfolding py_strip_def by (rule set_strip_where)
  with collapse_ws_chars [of t] have 1: "list_all (\<lambda>c. isspace c \<longrightarrow> c = CHR '' '') ?v"
    by (auto simp: list_all_iff)
  have 2: "\<not> py_in ''  '' ?v"
    using collapse_ws_no_double [of t] py_in_mono [of "''  ''" ?v a b] u by auto
  have 3: "\<not> prefix '' '' ?v \<and> \<not> suffix '' '' ?v"
  proof (cases "?v = []")
    case True
    then show ?thesis by simp
  next
    case False
    with strip_where_ends [of isspace ?u]
    have "\<not> isspace (hd ?v)" and "\<not> isspace (last ?v)" by (simp_all add: py_strip_def)
    then have "hd ?v \<noteq> CHR '' ''" and "last ?v \<noteq> CHR '' ''" by auto
    with False show ?thesis by (auto simp: prefix_def suffix_def)
  qed
  from 1 2 3 show ?thesis by (simp add: single_spaced_def clean_up_text_def)
qed

lemma collapse_ws_id:
  "list_all (\<lambda>c. isspace c \<longrightarrow> c = CHR '' '') t \<Longrightarrow> \<not> py_in ''  '' t \<Longrightarrow> collapse_ws t = t"
proof (induction t rule: collapse_ws.induct)
  case 1
  then show ?case by simp
next
  case (2 c cs)
  from "2.prems" have rest: "list_all (\<lambda>c. isspace c \<longrightarrow> c = CHR '' '') cs" "\<not> py_in ''  '' cs"
    by auto
  show ?case
  proof (cases "isspace c")
    case True
    with "2.prems"(1) have c: "c = CHR '' ''" by simp
    have "dropWhile isspace cs = cs"
    proof (cases cs)
      case Nil
      then show ?thesis by simp
    next
      case (Cons d ds)
      with "2.prems"(2) c have "d \<noteq> CHR '' ''" by auto
      with rest(1) Cons have "\<not> isspace d" by auto
      with Cons show ?thesis by simp
    qed
    with True "2.IH"(1) rest c show ?thesis by simp
  next
    case False
    with "2.IH"(2) rest show ?thesis by simp
  qed
qed

lemma clean_up_text_id: "single_spaced t \<Longrightarrow> clean_up_text t = t"
proof -
  assume s: "single_spaced t"
  then have c: "collapse_ws t = t" by (simp add: single_spaced_def collapse_ws_id)
  show ?thesis
  proof (cases "t = []")
    case True
    then show ?thesis by (simp add: clean_up_text_def py_strip_def)
  next
    case False
    from s have chars: "list_all (\<lambda>c. isspace c \<longrightarrow> c = CHR '' '') t"
      and "\<not> prefix '' '' t" and "\<not> suffix '' '' t"
      by (simp_all add: single_spaced_def)
    from False \<open>\<not> prefix '' '' t\<close> have "hd t \<noteq> CHR '' ''"
      by (cases t) auto
    moreover have "last t \<noteq> CHR '' ''"
    proof
      assume "last t = CHR '' ''"
      with False have "t = butlast t @ '' ''" by (metis append_butlast_last_id)
      then have "suffix '' '' t" by (metis suffixI)
      with \<open>\<not> suffix '' '' t\<close> show False by simp
    qed
    moreover from False chars have "isspace (hd t) \<longrightarrow> hd t = CHR '' ''"
      and "isspace (last t) \<longrightarrow> last t = CHR '' ''"
      by (auto simp: list_all_iff)
    ultimately have "\<not> isspace (hd t)" and "\<not> isspace (last t)" by auto
    with False have "strip_where isspace t = t" by (simp add: strip_where_id)
    with c show ?thesis by (simp add: clean_up_text_def py_strip_def)
  qed
qed

lemma length_clean_up_text: "length (clean_up_text t) \<le> length t"
  unfolding clean_up_text_def py_strip_def
  using length_strip_where [of isspace "collapse_ws t"] length_collapse_ws [of t]
  by (rule le_trans)

lemma clean_up_text_all_space: "list_all isspace t \<Longrightarrow> clean_up_text t = []"
proof (cases "t = []")
  case True
  then show ?thesis by (simp add: clean_up_text_def py_strip_def)
next
  case False
  assume "list_all isspace t"
  with False have "collapse_ws t = '' ''" by (simp add: collapse_ws_all_space)
  then show ?thesis by (simp add: clean_up_text_def py_strip_def strip_where_def)
qed


section \<open>Removing tags\<close>

lemma set_strip_tags: "set (strip_tags s) \<subseteq> set s"
proof (induction s rule: strip_tags.induct)
  case 1
  then show ?case by simp
next
  case (2 c cs)
  show ?case
  proof (cases "c = CHR ''<'' \<and> cs \<noteq> [] \<and> hd cs \<noteq> CHR ''>'' \<and> CHR ''>'' \<in> set cs")
    case True
    with "2.IH"(1) have "set (strip_tags (c # cs)) \<subseteq> set (tl (dropWhile (\<lambda>d. d \<noteq> CHR ''>'') cs))"
      by simp
    also have "\<dots> \<subseteq> set (dropWhile (\<lambda>d. d \<noteq> CHR ''>'') cs)"
      by (metis list.set_sel(2) subsetI tl_Nil)
    also have "\<dots> \<subseteq> set cs" by (meson set_dropWhileD subsetI)
    finally show ?thesis by auto
  next
    case False
    with "2.IH"(2) have "set (strip_tags cs) \<subseteq> set cs" by simp
    moreover have "strip_tags (c # cs) = c # strip_tags cs"
      by (subst strip_tags.simps) (simp only: False if_False)
    ultimately show ?thesis by auto
  qed
qed

lemma strip_tags_no_tag: "\<not> has_tag (strip_tags s)"
proof (induction s rule: strip_tags.induct)
  case 1
  then show ?case by simp
next
  case (2 c cs)
  show ?case
  proof (cases "c = CHR ''<'' \<and> cs \<noteq> [] \<and> hd cs \<noteq> CHR ''>'' \<and> CHR ''>'' \<in> set cs")
    case True
    with "2.IH"(1) show ?thesis by simp
  next
    case False
    with "2.IH"(2) have ih: "\<not> has_tag (strip_tags cs)" by simp
    have eq: "strip_tags (c # cs) = c # strip_tags cs"
      by (subst strip_tags.simps) (simp only: False if_False)
    let ?r = "strip_tags cs"
    have "\<not> (c = CHR ''<'' \<and> ?r \<noteq> [] \<and> hd ?r \<noteq> CHR ''>'' \<and> CHR ''>'' \<in> set ?r)"
    proof
      assume a: "c = CHR ''<'' \<and> ?r \<noteq> [] \<and> hd ?r \<noteq> CHR ''>'' \<and> CHR ''>'' \<in> set ?r"
      then have "cs \<noteq> []" by auto
      moreover from a set_strip_tags [of cs] have "CHR ''>'' \<in> set cs" by auto
      moreover have "hd cs \<noteq> CHR ''>''"
      proof
        assume "hd cs = CHR ''>''"
        with \<open>cs \<noteq> []\<close> obtain ds where "cs = CHR ''>'' # ds" by (cases cs) auto
        then have "hd ?r = CHR ''>''" by simp
        with a show False by simp
      qed
      ultimately show False using False a by simp
    qed
    with ih eq show ?thesis by simp
  qed
qed

lemma has_tag_append_right: "has_tag v \<Longrightarrow> has_tag (v @ b)"
  by (induction v) auto

lemma has_tag_append_left: "has_tag v \<Longrightarrow> has_tag (a @ v)"
  by (induction a) auto

lemma strip_where_no_tag: "\<not> has_tag s \<Longrightarrow> \<not> has_tag (strip_where P s)"
proof -
  assume n: "\<not> has_tag s"
  obtain a b where "s = a @ strip_where P s @ b" using strip_where_parts [of s P] by blast
  then have "has_tag (strip_where P s) \<Longrightarrow> has_tag s"
    by (metis has_tag_append_left has_tag_append_right)
  with n show ?thesis by blast
qed

lemma srv_cue_text_no_tag: "\<not> has_tag (srv_cue_text t)"
  unfolding srv_cue_text_def py_strip_def by (intro strip_where_no_tag strip_tags_no_tag)


section \<open>The choice of a subtitle track\<close>

lemma find_list_ex: "find P xs = None \<longleftrightarrow> \<not> list_ex P xs"
  by (auto simp: find_None_iff list_ex_iff)

lemma select_priority_first:
  "list_all (\<lambda>t. has_text (sub_url t)) ts \<Longrightarrow> \<not> has_text (fst st) \<Longrightarrow>
   select_priority fmts ts st =
     Inr (case find (\<lambda>fmt. list_ex (\<lambda>t. sub_ext t = Some fmt) ts) fmts of
            None \<Rightarrow> st
          | Some fmt \<Rightarrow> (sub_url (the (find (\<lambda>t. sub_ext t = Some fmt) ts)), Some fmt))"
proof (induction fmts)
  case Nil
  then show ?case by simp
next
  case (Cons fmt fmts)
  show ?case
  proof (cases "find (\<lambda>sub. sub_ext sub = Some fmt) ts")
    case None
    then have "\<not> list_ex (\<lambda>t. sub_ext t = Some fmt) ts" by (simp add: find_list_ex)
    with None Cons show ?thesis by simp
  next
    case (Some sub)
    then have ex: "list_ex (\<lambda>t. sub_ext t = Some fmt) ts"
      using find_list_ex [of "\<lambda>t. sub_ext t = Some fmt" ts] by simp
    from Some have "sub \<in> set ts" by (auto simp: find_Some_iff)
    with Cons.prems(1) have "has_text (sub_url sub)" by (simp add: list_all_iff)
    then obtain u where "sub_url sub = Some u" and "u \<noteq> []" by (cases "sub_url sub") auto
    with Some ex show ?thesis by simp
  qed
qed

lemma select_subtitle_first:
  "list_all (\<lambda>t. has_text (sub_url t)) ts \<Longrightarrow>
   select_subtitle ts =
     Inr (case find (\<lambda>fmt. list_ex (\<lambda>t. sub_ext t = Some fmt) ts) priority_formats of
            Some fmt \<Rightarrow> (sub_url (the (find (\<lambda>t. sub_ext t = Some fmt) ts)), Some fmt)
          | None \<Rightarrow>
              (case find (\<lambda>t. sub_ext t \<noteq> Some ''m3u8'') ts of
                 Some t \<Rightarrow> (sub_url t, sub_ext t)
               | None \<Rightarrow> (None, None)))"
proof -
  assume urls: "list_all (\<lambda>t. has_text (sub_url t)) ts"
  let ?f = "find (\<lambda>fmt. list_ex (\<lambda>t. sub_ext t = Some fmt) ts) priority_formats"
  have p: "select_priority priority_formats ts (None, None) =
     Inr (case ?f of None \<Rightarrow> (None, None)
          | Some fmt \<Rightarrow> (sub_url (the (find (\<lambda>t. sub_ext t = Some fmt) ts)), Some fmt))"
    using urls by (rule select_priority_first) simp
  show ?thesis
  proof (cases ?f)
    case None
    show ?thesis
    proof (cases "find (\<lambda>t. sub_ext t \<noteq> Some ''m3u8'') ts")
      case n: None
      with None p show ?thesis by (simp add: select_subtitle_def select_fallback_def)
    next
      case (Some t)
      then have "t \<in> set ts" by (auto simp: find_Some_iff)
      with urls have "has_text (sub_url t)" by (simp add: list_all_iff)
      then obtain u where "sub_url t = Some u" by (cases "sub_url t") auto
      with None Some p show ?thesis by (simp add: select_subtitle_def select_fallback_def)
    qed
  next
    case (Some fmt)
    then have "list_ex (\<lambda>t. sub_ext t = Some fmt) ts" by (auto simp: find_Some_iff)
    then obtain t where t: "find (\<lambda>t. sub_ext t = Some fmt) ts = Some t"
      using find_list_ex [of "\<lambda>t. sub_ext t = Some fmt" ts] by auto
    then have "t \<in> set ts" by (auto simp: find_Some_iff)
    with urls have "has_text (sub_url t)" by (simp add: list_all_iff)
    with Some t p show ?thesis by (simp add: select_subtitle_def select_fallback_def)
  qed
qed

lemma select_priority_ext:
  "select_priority fmts ts st = Inr (su, se) \<Longrightarrow> se = snd st \<or> (\<exists>fmt \<in> set fmts. se = Some fmt)"
proof (induction fmts arbitrary: st)
  case Nil
  then show ?case by simp
next
  case (Cons fmt fmts)
  show ?case
  proof (cases "find (\<lambda>sub. sub_ext sub = Some fmt) ts")
    case None
    with Cons.prems have "(su, se) = st \<or> select_priority fmts ts st = Inr (su, se)"
      by (auto split: if_splits)
    with Cons.IH [of st] show ?thesis by auto
  next
    case (Some sub)
    with Cons.prems obtain u where u: "sub_url sub = Some u" by (cases "sub_url sub") auto
    with Some Cons.prems
    have "(su, se) = (Some u, Some fmt) \<or> select_priority fmts ts (Some u, Some fmt) = Inr (su, se)"
      by (auto split: if_splits)
    with Cons.IH [of "(Some u, Some fmt)"] show ?thesis by auto
  qed
qed

lemma select_subtitle_not_m3u8: "select_subtitle ts = Inr (su, se) \<Longrightarrow> se \<noteq> Some ''m3u8''"
proof -
  assume a: "select_subtitle ts = Inr (su, se)"
  then obtain st where st: "select_priority priority_formats ts (None, None) = Inr st"
    and fb: "select_fallback ts st = Inr (su, se)"
    by (auto simp: select_subtitle_def split: sum.splits)
  obtain su1 se1 where st1: "st = (su1, se1)" by (cases st)
  with st select_priority_ext [of priority_formats ts "(None, None)" su1 se1]
  have "se1 = None \<or> (\<exists>fmt \<in> set priority_formats. se1 = Some fmt)" by simp
  then have se1: "se1 \<noteq> Some ''m3u8''" by (auto simp: priority_formats_def)
  from fb st1 have "se = se1 \<or> (\<exists>t. find (\<lambda>t. sub_ext t \<noteq> Some ''m3u8'') ts = Some t \<and> se = sub_ext t)"
    by (auto simp: select_fallback_def split: if_splits option.splits)
  then show ?thesis using se1 by (auto simp: find_Some_iff)
qed

lemma select_subtitle_all_m3u8:
  "list_all (\<lambda>t. sub_ext t = Some ''m3u8'') ts \<Longrightarrow> select_subtitle ts = Inr (None, None)"
proof -
  assume a: "list_all (\<lambda>t. sub_ext t = Some ''m3u8'') ts"
  have "\<And>fmt. fmt \<noteq> ''m3u8'' \<Longrightarrow> find (\<lambda>sub. sub_ext sub = Some fmt) ts = None"
    using a by (auto simp: find_None_iff list_all_iff)
  then have "select_priority priority_formats ts (None, None) = Inr (None, None)"
    by (simp add: priority_formats_def)
  moreover have "find (\<lambda>t. sub_ext t \<noteq> Some ''m3u8'') ts = None"
    using a by (auto simp: find_None_iff list_all_iff)
  ultimately show ?thesis by (simp add: select_subtitle_def select_fallback_def)
qed

section \<open>The two methods in turn\<close>

lemma ytdlp_falls_through:
  "extract_youtube_video_id L url = Inr (Some vid) \<Longrightarrow> vid \<noteq> [] \<Longrightarrow> YTDLP_AVAILABLE E \<Longrightarrow>
   snd (ytdlp_method L E vid) = Inl e \<or> snd (ytdlp_method L E vid) = Inr None \<Longrightarrow>
   get_youtube_transcript L E url
     = (fst (ytdlp_method L E vid) @ fst (api_fallback E vid), snd (api_fallback E vid))"
  by (auto simp: get_youtube_transcript_def)

lemma api_method_first_call: "\<exists>rest. fst (api_method E vid) = GetTranscript vid # rest"
  by (simp add: api_method_def split: sum.splits)

lemma ytdlp_all_m3u8:
  "extract_info E (''https://www.youtube.com/watch?v='' @ vid) = Inr info \<Longrightarrow>
   has_tracks (english_tracks info) \<Longrightarrow>
   list_all (\<lambda>t. sub_ext t = Some ''m3u8'') (the (english_tracks info)) \<Longrightarrow>
   ytdlp_method L E vid = ([ExtractInfo (''https://www.youtube.com/watch?v='' @ vid)], Inr None)"
  by (simp add: ytdlp_method_def select_subtitle_all_m3u8)

lemma process_m3u8:
  "is_m3u8_playlist body \<Longrightarrow>
   process_subtitle_content lds ext body
     = Inl (Raise Exception ''M3U8 playlist received instead of subtitles'')"
  by (simp add: process_subtitle_content_def)

lemma ytdlp_m3u8_body:
  "extract_info E (''https://www.youtube.com/watch?v='' @ vid) = Inr info \<Longrightarrow>
   has_tracks (english_tracks info) \<Longrightarrow>
   select_subtitle (the (english_tracks info)) = Inr (Some u, se) \<Longrightarrow> u \<noteq> [] \<Longrightarrow>
   requests_get E u = Inr response \<Longrightarrow> status_code response = 200 \<Longrightarrow>
   is_m3u8_playlist (response_text response) \<Longrightarrow>
   ytdlp_method L E vid
     = ([ExtractInfo (''https://www.youtube.com/watch?v='' @ vid), HttpGet u],
        Inl (Raise Exception ''M3U8 playlist received instead of subtitles''))"
  by (simp add: ytdlp_method_def ytdlp_download_def process_m3u8)

lemma urlparse_error: "urlparse L url = Inl e \<Longrightarrow> e = Raise ValueError ''netloc is not accepted''"
  by (auto simp: urlparse_def Let_def split: if_splits)

section \<open>Sanitized file names\<close>

lemma underscore_not_reserved: "\<not> reserved_char CHR ''_''"
  by (simp add: reserved_char_def)

lemma replace_reserved_clean: "list_all (\<lambda>c. \<not> reserved_char c) (replace_reserved s)"
  by (induction s) (simp_all add: replace_reserved_def underscore_not_reserved)

lemma replace_reserved_id: "list_all (\<lambda>c. \<not> reserved_char c) s \<Longrightarrow> replace_reserved s = s"
  by (simp add: replace_reserved_def list_all_iff map_idI)

lemma unnamed_file_clean: "list_all (\<lambda>c. \<not> reserved_char c) ''unnamed_file''"
  by (simp add: reserved_char_def)

lemma cleaned_name_clean: "list_all (\<lambda>c. \<not> reserved_char c) (cleaned_name L x)"
proof -
  let ?r = "replace_reserved (if is_url x then url_file_name L x else x)"
  have "set (strip_chars ''. '' ?r) \<subseteq> set ?r"
    unfolding strip_chars_def by (rule set_strip_where)
  with replace_reserved_clean [of "if is_url x then url_file_name L x else x"]
  have "list_all (\<lambda>c. \<not> reserved_char c) (strip_chars ''. '' ?r)"
    by (auto simp: list_all_iff)
  with unnamed_file_clean show ?thesis by (simp add: cleaned_name_def)
qed

lemma splitext_parts: "fst (splitext p) @ snd (splitext p) = p"
  by (simp add: splitext_def)

lemma set_slice_to: "set (slice_to k s) \<subseteq> set s"
  by (auto simp: slice_to_def dest: in_set_takeD)

lemma set_limit_length: "set (limit_length f) \<subseteq> set f"
proof -
  have "set (fst (splitext f)) \<subseteq> set f" and "set (snd (splitext f)) \<subseteq> set f"
    using splitext_parts [of f] by (metis Un_iff set_append subsetI)+
  moreover have "set (slice_to (255 - int (length (snd (splitext f)))) (fst (splitext f)))
      \<subseteq> set (fst (splitext f))" by (rule set_slice_to)
  moreover have "set (take 255 f) \<subseteq> set f" by (rule set_take_subset)
  ultimately show ?thesis by (auto simp: limit_length_def)
qed

lemma sanitize_filename_clean: "list_all (\<lambda>c. \<not> reserved_char c) (sanitize_filename L x)"
  using cleaned_name_clean [of L x] set_limit_length [of "cleaned_name L x"]
  by (auto simp: sanitize_filename_def list_all_iff)

lemma length_limit_length:
  "length (snd (splitext f)) \<le> 255 \<Longrightarrow> length (limit_length f) \<le> 255"
  by (auto simp: limit_length_def slice_to_def)

lemma limit_length_nonempty: "f \<noteq> [] \<Longrightarrow> limit_length f \<noteq> []"
  by (auto simp: limit_length_def)

lemma cleaned_name_nonempty: "cleaned_name L x \<noteq> []"
  by (simp add: cleaned_name_def)

lemma clean_not_url: "list_all (\<lambda>c. \<not> reserved_char c) y \<Longrightarrow> \<not> is_url y"
proof
  assume c: "list_all (\<lambda>c. \<not> reserved_char c) y" and u: "is_url y"
  from u obtain r where "y = ''http://'' @ r \<or> y = ''https://'' @ r \<or> y = ''ftp://'' @ r"
    by (auto simp: is_url_def prefix_def)
  then have "CHR '':'' \<in> set y" by auto
  moreover have "reserved_char CHR '':''" by (simp add: reserved_char_def)
  ultimately show False using c by (auto simp: list_all_iff)
qed

lemma sanitize_fixed_point:
  "list_all (\<lambda>c. \<not> reserved_char c) y \<Longrightarrow> y \<noteq> [] \<Longrightarrow> strip_chars ''. '' y = y \<Longrightarrow>
   length y \<le> 255 \<Longrightarrow> sanitize_filename L y = y"
  by (simp add: sanitize_filename_def cleaned_name_def clean_not_url replace_reserved_id
      limit_length_def)

lemma cleaned_name_stripped: "strip_chars ''. '' (cleaned_name L x) = cleaned_name L x"
proof -
  have "strip_chars ''. '' ''unnamed_file'' = ''unnamed_file''"
    by (simp add: strip_chars_def strip_where_def)
  then show ?thesis by (simp add: cleaned_name_def strip_chars_def strip_where_idem)
qed

section \<open>Saving and loading sessions\<close>

lemma save_file_keeps_session:
  "files (fst (save_file L chat_folder D file_data)) (chat_folder @ ''/session.json'')
     = files D (chat_folder @ ''/session.json'')"
  by (auto simp: save_file_def split: sum.splits json.splits)

lemma save_files_keeps_session:
  "files (fst (save_files L chat_folder D file_datas)) (chat_folder @ ''/session.json'')
     = files D (chat_folder @ ''/session.json'')"
proof (induction file_datas arbitrary: D)
  case Nil
  then show ?case by simp
next
  case (Cons file_data rest)
  obtain D' r where s: "save_file L chat_folder D file_data = (D', r)"
    by (cases "save_file L chat_folder D file_data")
  with save_file_keeps_session [of L chat_folder D file_data]
  have k: "files D' (chat_folder @ ''/session.json'') = files D (chat_folder @ ''/session.json'')"
    by simp
  show ?case
  proof (cases r)
    case None
    with s k Cons.IH [of D'] show ?thesis by simp
  next
    case (Some e)
    with s k show ?thesis by simp
  qed
qed

lemma save_message_keeps_session:
  "files (fst (save_message L chat_folder D msg)) (chat_folder @ ''/session.json'')
     = files D (chat_folder @ ''/session.json'')"
  by (auto simp: save_message_def save_files_keeps_session split: sum.splits)

lemma save_messages_keeps_session:
  "files (fst (save_messages L chat_folder D msgs)) (chat_folder @ ''/session.json'')
     = files D (chat_folder @ ''/session.json'')"
proof (induction msgs arbitrary: D)
  case Nil
  then show ?case by simp
next
  case (Cons msg rest)
  obtain D' r where s: "save_message L chat_folder D msg = (D', r)"
    by (cases "save_message L chat_folder D msg")
  with save_message_keeps_session [of L chat_folder D msg]
  have k: "files D' (chat_folder @ ''/session.json'') = files D (chat_folder @ ''/session.json'')"
    by simp
  show ?case
  proof (cases r)
    case None
    with s k Cons.IH [of D'] show ?thesis by simp
  next
    case (Some e)
    with s k show ?thesis by simp
  qed
qed

lemma write_session_stores:
  "write_session L chat_folder D chat_id session_data messages = (D', Success r) \<Longrightarrow>
   files D' (chat_folder @ ''/session.json'') = Some (JsonFile session_data) \<and> r = (chat_id, chat_folder)"
proof -
  assume w: "write_session L chat_folder D chat_id session_data messages = (D', Success r)"
  let ?D1 = "D\<lparr>files := (files D)(chat_folder @ ''/session.json'' \<mapsto> JsonFile session_data)\<rparr>"
  from w obtain msgs where "py_iter messages = Inr msgs"
    and s: "save_messages L chat_folder ?D1 msgs = (D', None)" and r: "r = (chat_id, chat_folder)"
    by (auto simp: write_session_def split: if_splits sum.splits prod.splits option.splits)
  from s save_messages_keeps_session [of L chat_folder ?D1 msgs]
  have "files D' (chat_folder @ ''/session.json'') = files ?D1 (chat_folder @ ''/session.json'')"
    by simp
  with r show ?thesis by simp
qed

lemma save_session_stores:
  "save_session L sp now1 now2 D data = (D', Success r) \<Longrightarrow>
   \<exists>chat_id chat_title created_at messages.
     py_get data ''chat_id'' JNull = Inr chat_id
     \<and> py_get data ''chat_title'' (JStr ''Untitled Chat'') = Inr chat_title
     \<and> py_get data ''created_at'' (JStr now1) = Inr created_at
     \<and> py_get data ''messages'' (JArr []) = Inr messages
     \<and> has_text sp \<and> truthy chat_id
     \<and> r = (chat_id, the sp @ ''/chat_'' @ fstring L chat_id)
     \<and> files D' (the sp @ ''/chat_'' @ fstring L chat_id @ ''/session.json'')
         = Some (JsonFile (session_data_of chat_id chat_title created_at messages now2))"
proof -
  assume s: "save_session L sp now1 now2 D data = (D', Success r)"
  then obtain chat_id chat_title created_at messages where
    g: "py_get data ''chat_id'' JNull = Inr chat_id"
       "py_get data ''chat_title'' (JStr ''Untitled Chat'') = Inr chat_title"
       "py_get data ''created_at'' (JStr now1) = Inr created_at"
       "py_get data ''messages'' (JArr []) = Inr messages"
       "has_text sp" "truthy chat_id"
    and w: "write_session L (the sp @ ''/chat_'' @ fstring L chat_id) D chat_id
        (session_data_of chat_id chat_title created_at messages now2) messages = (D', Success r)"
    by (auto simp: save_session_def split: if_splits sum.splits)
  from write_session_stores [OF w] g show ?thesis by simp
qed

lemma collect_sessions_expected:
  "list_all (\<lambda>entry. record_file D entry \<noteq> None \<longrightarrow> \<not> isl (entry_summary L D entry)) listing \<Longrightarrow>
   collect_sessions L D listing
     = Inr (map (\<lambda>entry. projr (entry_summary L D entry))
             (filter (\<lambda>entry. record_file D entry \<noteq> None) listing))"
proof (induction listing)
  case Nil
  then show ?case by simp
next
  case (Cons entry rest)
  obtain p d where e: "entry = (p, d)" by (cases entry)
  from Cons have ih: "collect_sessions L D rest
     = Inr (map (\<lambda>entry. projr (entry_summary L D entry))
             (filter (\<lambda>entry. record_file D entry \<noteq> None) rest))" by simp
  show ?case
  proof (cases "record_file D entry")
    case None
    with e ih show ?thesis by (auto simp: record_file_def split: if_splits)
  next
    case (Some f)
    with Cons.prems obtain s where s: "entry_summary L D entry = Inr s"
      by (cases "entry_summary L D entry") auto
    from Some e have d: "d" and f: "files D (p @ ''/session.json'') = Some f"
      by (auto simp: record_file_def split: if_splits)
    from s Some obtain v where "read_json L f = Inr v" and "summary_of v = Inr s"
      by (auto simp: entry_summary_def split: sum.splits)
    with e d f ih Some s show ?thesis by simp
  qed
qed

lemma collect_sessions_unreadable:
  "list_ex (\<lambda>entry. record_file D entry \<noteq> None \<and> isl (read_json L (the (record_file D entry)))) listing
   \<Longrightarrow> isl (collect_sessions L D listing)"
proof (induction listing)
  case Nil
  then show ?case by simp
next
  case (Cons entry rest)
  obtain p d where e: "entry = (p, d)" by (cases entry)
  show ?case
  proof (cases "record_file D entry \<noteq> None \<and> isl (read_json L (the (record_file D entry)))")
    case True
    with e show ?thesis by (auto simp: record_file_def isl_def split: if_splits)
  next
    case False
    with Cons have "isl (collect_sessions L D rest)" by auto
    with e show ?thesis by (auto simp: isl_def split: sum.splits option.splits)
  qed
qed

lemma py_insort_text:
  "text_key x \<Longrightarrow> list_all text_key ys \<Longrightarrow>
   py_insort L sum_updated_at x ys = Inr (insort_key updated_text x ys)"
proof (induction ys)
  case Nil
  then show ?case by simp
next
  case (Cons y ys)
  from Cons.prems obtain a b where a: "sum_updated_at x = JStr a" and b: "sum_updated_at y = JStr b"
    by (auto simp: text_key_def split: json.splits)
  then have k: "updated_text x = a" "updated_text y = b" by (simp_all add: updated_text_def)
  from Cons have ih: "py_insort L sum_updated_at x ys = Inr (insort_key updated_text x ys)"
    by simp
  show ?case
  proof (cases "b < a")
    case True
    then have "\<not> a \<le> b" by (simp add: not_le)
    with True a b k ih show ?thesis by simp
  next
    case False
    then have "a \<le> b" by (simp add: not_less)
    with False a b k show ?thesis by simp
  qed
qed

lemma py_sort_text:
  "list_all text_key xs \<Longrightarrow> py_sort L sum_updated_at xs = Inr (sort_key updated_text xs)"
proof (induction xs)
  case Nil
  then show ?case by simp
next
  case (Cons x xs)
  then have "list_all text_key (sort_key updated_text xs)" by (simp add: list_all_iff)
  with Cons show ?case by (simp add: py_insort_text)
qed

lemma py_sort_reverse_text:
  "list_all text_key xs \<Longrightarrow>
   py_sort_reverse L sum_updated_at xs = Inr (rev (sort_key updated_text (rev xs)))"
  by (simp add: py_sort_reverse_def py_sort_text list_all_iff)

lemma sorted_descending:
  "sorted_wrt (\<lambda>a b. updated_text b \<le> updated_text a) (rev (sort_key updated_text xs))"
proof -
  have "sorted (map updated_text (sort_key updated_text xs))" by (rule sorted_sort_key)
  then have "sorted_wrt (\<lambda>a b. updated_text a \<le> updated_text b) (sort_key updated_text xs)"
    by (simp add: sorted_map)
  then show ?thesis by (simp add: sorted_wrt_rev)
qed


section \<open>The content checks on a downloaded subtitle track\<close>

text \<open>
  Claim C1, as the code has it. The check made on the cleaned text of a track lets no
  empty text through, no text of whitespace only and no text of 50 characters or fewer;
  a body that starts with the playlist header \<^verbatim>\<open>#EXTM3U\<close>, or has a playlist tag
  \<^verbatim>\<open>#EXT-X-\<close> in it, is refused before it is decoded, whatever its format; and every single-spaced text of more than 50 characters is let
  through unchanged.
\<close>

theorem content_quality_gate:
  "\<not> meaningful_content (clean_up_text [])
   \<and> (list_all isspace t1 \<longrightarrow> \<not> meaningful_content (clean_up_text t1))
   \<and> (length t2 \<le> 50 \<longrightarrow> \<not> meaningful_content (clean_up_text t2))
   \<and> (prefix ''#EXTM3U'' body \<or> py_in ''#EXT-X-'' body \<longrightarrow>
        process_subtitle_content loads1 ext1 body
          = Inl (Raise Exception ''M3U8 playlist received instead of subtitles''))
   \<and> (single_spaced t3 \<and> 50 < length t3 \<longrightarrow>
        clean_up_text t3 = t3 \<and> meaningful_content (clean_up_text t3))
   \<and> (\<not> is_m3u8_playlist content \<and> parse_subtitle loads2 ext2 content = Inr t3
        \<and> single_spaced t3 \<and> 50 < length t3 \<longrightarrow>
        process_subtitle_content loads2 ext2 content = Inr t3)"
proof -
  have a: "\<not> meaningful_content (clean_up_text [])"
    by (simp add: meaningful_content_def clean_up_text_def py_strip_def)
  have b: "list_all isspace t1 \<longrightarrow> \<not> meaningful_content (clean_up_text t1)"
    by (simp add: clean_up_text_all_space meaningful_content_def)
  have c: "length t2 \<le> 50 \<longrightarrow> \<not> meaningful_content (clean_up_text t2)"
    using length_clean_up_text [of t2] by (simp add: meaningful_content_def)
  have d: "prefix ''#EXTM3U'' body \<or> py_in ''#EXT-X-'' body \<longrightarrow>
        process_subtitle_content loads1 ext1 body
          = Inl (Raise Exception ''M3U8 playlist received instead of subtitles'')"
    by (auto simp: process_subtitle_content_def is_m3u8_playlist_def)
  have e: "single_spaced t3 \<and> 50 < length t3 \<longrightarrow>
        clean_up_text t3 = t3 \<and> meaningful_content (clean_up_text t3)"
    by (auto simp: clean_up_text_id meaningful_content_def)
  have f: "\<not> is_m3u8_playlist content \<and> parse_subtitle loads2 ext2 content = Inr t3
        \<and> single_spaced t3 \<and> 50 < length t3 \<longrightarrow>
        process_subtitle_content loads2 ext2 content = Inr t3"
    using e by (auto simp: process_subtitle_content_def)
  from a b c d e f show ?thesis by blast
qed

text \<open>
  The four kinds of text at work: three spaces, a short text, a playlist, and a sentence
  of 52 characters, which passes.
\<close>

theorem content_quality_gate_witness:
  "list_all isspace ''   ''
   \<and> \<not> meaningful_content (clean_up_text ''   '')
   \<and> length ''too short'' \<le> 50
   \<and> \<not> meaningful_content (clean_up_text ''too short'')
   \<and> prefix ''#EXTM3U'' ''#EXTM3U #EXTINF:10, segment0.ts''
   \<and> process_subtitle_content (Inl \<circ> Raise ValueError) (Some ''vtt'')
         ''#EXTM3U #EXTINF:10, segment0.ts''
       = Inl (Raise Exception ''M3U8 playlist received instead of subtitles'')
   \<and> single_spaced ''The quick brown fox jumps over the lazy dog at noon.''
   \<and> 50 < length ''The quick brown fox jumps over the lazy dog at noon.''
   \<and> meaningful_content (clean_up_text ''The quick brown fox jumps over the lazy dog at noon.'')
   \<and> \<not> is_m3u8_playlist ''The quick brown fox jumps over the lazy dog at noon.''
   \<and> process_subtitle_content (Inl \<circ> Raise ValueError) (Some ''ttml'')
         ''The quick brown fox jumps over the lazy dog at noon.''
       = Inr ''The quick brown fox jumps over the lazy dog at noon.''"
proof -
  let ?p = "''The quick brown fox jumps over the lazy dog at noon.''"
  let ?m = "''#EXTM3U #EXTINF:10, segment0.ts''"
  let ?l = "Inl \<circ> Raise ValueError :: string \<Rightarrow> exn + json"
  have h1: "list_all isspace ''   ''" by code_simp
  have h2: "length ''too short'' \<le> 50" by simp
  have h3: "prefix ''#EXTM3U'' ?m" by simp
  have h4: "single_spaced ?p" by code_simp
  have h5: "50 < length ?p" by simp
  have h6: "\<not> is_m3u8_playlist ?p" by code_simp
  have h7: "parse_subtitle ?l (Some ''ttml'') ?p = Inr ?p" by code_simp
  note g = content_quality_gate [where ?t1.0 = "''   ''" and ?t2.0 = "''too short''"
      and body = ?m and ?loads1.0 = ?l and ?ext1.0 = "Some ''vtt''" and ?t3.0 = ?p
      and content = ?p and ?loads2.0 = ?l and ?ext2.0 = "Some ''ttml''"]
  from g h1 h2 h3 h4 h5 h6 h7 show ?thesis by blast
qed

text \<open>
  A sentence of exactly 50 characters, single-spaced and no playlist, is not let through:
  the test is \<^verbatim>\<open>len(full_text) > 50\<close>.
\<close>

theorem content_quality_gate_counterexample:
  "length ''The quick brown fox jumps over the lazy dog today.'' = 50
   \<and> single_spaced ''The quick brown fox jumps over the lazy dog today.''
   \<and> \<not> is_m3u8_playlist ''The quick brown fox jumps over the lazy dog today.''
   \<and> \<not> meaningful_content (clean_up_text ''The quick brown fox jumps over the lazy dog today.'')
   \<and> process_subtitle_content (Inl \<circ> Raise ValueError) (Some ''ttml'')
         ''The quick brown fox jumps over the lazy dog today.''
       = Inl (Raise Exception ''Insufficient content extracted'')"
proof -
  let ?p = "''The quick brown fox jumps over the lazy dog today.''"
  have 1: "length ?p = 50" by simp
  have 2: "single_spaced ?p" by code_simp
  have 3: "\<not> is_m3u8_playlist ?p" by code_simp
  have 4: "\<not> meaningful_content (clean_up_text ?p)" by code_simp
  have 5: "process_subtitle_content (Inl \<circ> Raise ValueError) (Some ''ttml'') ?p
       = Inl (Raise Exception ''Insufficient content extracted'')" by code_simp
  from 1 2 3 4 5 show ?thesis by blast
qed

section \<open>Failures of the yt-dlp method\<close>

text \<open>
  Claim C2, as the code has it. Every exception raised in the yt-dlp method, whatever its
  reason, is caught: \<^verbatim>\<open>get_youtube_transcript\<close> goes on with the fallback and answers what
  the fallback answers. The fallback calls the transcript API first when that library is
  installed, and raises \<^verbatim>\<open>No YouTube transcript extraction method available\<close> when it is
  not. The reason \<^verbatim>\<open>Transcripts are disabled for this video\<close> comes from the transcript API
  method only: it is raised, with no further call, when listing the transcripts raises
  \<^verbatim>\<open>TranscriptsDisabled\<close>.
\<close>

theorem first_method_failures_are_soft:
  "(extract_youtube_video_id L url = Inr (Some vid) \<and> vid \<noteq> [] \<and> YTDLP_AVAILABLE E
      \<and> snd (ytdlp_method L E vid) = Inl e \<longrightarrow>
      get_youtube_transcript L E url
        = (fst (ytdlp_method L E vid) @ fst (api_fallback E vid), snd (api_fallback E vid)))
   \<and> (YOUTUBE_API_AVAILABLE E2 \<longrightarrow>
        api_fallback E2 vid2 = api_method E2 vid2
        \<and> (\<exists>rest. fst (api_method E2 vid2) = GetTranscript vid2 # rest))
   \<and> (\<not> YOUTUBE_API_AVAILABLE E3 \<longrightarrow>
        api_fallback E3 vid3
          = ([], Inl (Raise Exception
               ''No YouTube transcript extraction method available. Install youtube-transcript-api or yt-dlp'')))
   \<and> (get_transcript E4 vid4 = Inl e4
        \<and> list_transcripts E4 vid4 = Inl (Raise TranscriptsDisabled msg) \<longrightarrow>
        api_method E4 vid4
          = ([GetTranscript vid4, ListTranscripts vid4],
             Inl (Raise Exception ''Transcripts are disabled for this video'')))"
proof -
  have 1: "extract_youtube_video_id L url = Inr (Some vid) \<and> vid \<noteq> [] \<and> YTDLP_AVAILABLE E
      \<and> snd (ytdlp_method L E vid) = Inl e \<longrightarrow>
      get_youtube_transcript L E url
        = (fst (ytdlp_method L E vid) @ fst (api_fallback E vid), snd (api_fallback E vid))"
    using ytdlp_falls_through [of L url vid E e] by blast
  have 2: "YOUTUBE_API_AVAILABLE E2 \<longrightarrow>
        api_fallback E2 vid2 = api_method E2 vid2
        \<and> (\<exists>rest. fst (api_method E2 vid2) = GetTranscript vid2 # rest)"
    using api_method_first_call [of E2 vid2] by (simp add: api_fallback_def)
  have 3: "\<not> YOUTUBE_API_AVAILABLE E3 \<longrightarrow>
        api_fallback E3 vid3
          = ([], Inl (Raise Exception
               ''No YouTube transcript extraction method available. Install youtube-transcript-api or yt-dlp''))"
    by (simp add: api_fallback_def)
  have 4: "get_transcript E4 vid4 = Inl e4
        \<and> list_transcripts E4 vid4 = Inl (Raise TranscriptsDisabled msg) \<longrightarrow>
        api_method E4 vid4
          = ([GetTranscript vid4, ListTranscripts vid4],
             Inl (Raise Exception ''Transcripts are disabled for this video''))"
    by (simp add: api_method_def api_advanced_def)
  from 1 2 3 4 show ?thesis by blast
qed

theorem first_method_failures_are_soft_witness:
  "snd (ytdlp_method plain_lib
          (offline_world
             \<lparr>list_transcripts := (\<lambda>v. Inl (Raise TranscriptsDisabled ''subtitles are disabled''))\<rparr>)
          ''abc123'')
     = Inl (Raise Exception ''no answer'')
   \<and> get_youtube_transcript plain_lib
        (offline_world
           \<lparr>list_transcripts := (\<lambda>v. Inl (Raise TranscriptsDisabled ''subtitles are disabled''))\<rparr>)
        ''https://youtu.be/abc123''
     = ([ExtractInfo ''https://www.youtube.com/watch?v=abc123'', GetTranscript ''abc123'',
         ListTranscripts ''abc123''],
        Inl (Raise Exception ''Transcripts are disabled for this video''))
   \<and> \<not> YOUTUBE_API_AVAILABLE (offline_world\<lparr>YOUTUBE_API_AVAILABLE := False\<rparr>)
   \<and> get_youtube_transcript plain_lib (offline_world\<lparr>YOUTUBE_API_AVAILABLE := False\<rparr>)
        ''https://youtu.be/abc123''
     = ([ExtractInfo ''https://www.youtube.com/watch?v=abc123''],
        Inl (Raise Exception
          ''No YouTube transcript extraction method available. Install youtube-transcript-api or yt-dlp''))"
proof -
  let ?E = "offline_world
      \<lparr>list_transcripts := (\<lambda>v. Inl (Raise TranscriptsDisabled ''subtitles are disabled''))\<rparr>"
  let ?F = "offline_world\<lparr>YOUTUBE_API_AVAILABLE := False\<rparr>"
  let ?url = "''https://youtu.be/abc123''"
  let ?no = "''No YouTube transcript extraction method available. Install youtube-transcript-api or yt-dlp''"
  have x: "extract_youtube_video_id plain_lib ?url = Inr (Some ''abc123'')" by code_simp
  have ne: "''abc123'' \<noteq> []" by simp
  have y: "YTDLP_AVAILABLE ?E" and yf: "YTDLP_AVAILABLE ?F" and a: "YOUTUBE_API_AVAILABLE ?E"
    and na: "\<not> YOUTUBE_API_AVAILABLE ?F"
    by (simp_all add: offline_world_def)
  have m: "ytdlp_method plain_lib ?E ''abc123''
      = ([ExtractInfo ''https://www.youtube.com/watch?v=abc123''], Inl (Raise Exception ''no answer''))"
    by (simp add: ytdlp_method_def offline_world_def)
  have mf: "ytdlp_method plain_lib ?F ''abc123''
      = ([ExtractInfo ''https://www.youtube.com/watch?v=abc123''], Inl (Raise Exception ''no answer''))"
    by (simp add: ytdlp_method_def offline_world_def)
  have g: "get_transcript ?E ''abc123'' = Inl (Raise Exception ''no answer'')"
    and l: "list_transcripts ?E ''abc123'' = Inl (Raise TranscriptsDisabled ''subtitles are disabled'')"
    by (simp_all add: offline_world_def)
  note t = first_method_failures_are_soft [where L = plain_lib and url = ?url and vid = "''abc123''"
      and E = ?E and e = "Raise Exception ''no answer''" and ?E2.0 = ?E and ?vid2.0 = "''abc123''"
      and ?E3.0 = ?F and ?vid3.0 = "''abc123''" and ?E4.0 = ?E and ?vid4.0 = "''abc123''"
      and ?e4.0 = "Raise Exception ''no answer''" and msg = "''subtitles are disabled''"]
  note u = first_method_failures_are_soft [where L = plain_lib and url = ?url and vid = "''abc123''"
      and E = ?F and e = "Raise Exception ''no answer''"]
  from m have sm: "snd (ytdlp_method plain_lib ?E ''abc123'') = Inl (Raise Exception ''no answer'')"
    by simp
  from mf have smf: "snd (ytdlp_method plain_lib ?F ''abc123'') = Inl (Raise Exception ''no answer'')"
    by simp
  from t x ne y sm have 1: "get_youtube_transcript plain_lib ?E ?url
      = (fst (ytdlp_method plain_lib ?E ''abc123'') @ fst (api_fallback ?E ''abc123''),
         snd (api_fallback ?E ''abc123''))" by blast
  from t a have 2: "api_fallback ?E ''abc123'' = api_method ?E ''abc123''" by blast
  from t g l have 3: "api_method ?E ''abc123''
      = ([GetTranscript ''abc123'', ListTranscripts ''abc123''],
         Inl (Raise Exception ''Transcripts are disabled for this video''))" by blast
  from t na have 4: "api_fallback ?F ''abc123'' = ([], Inl (Raise Exception ?no))" by blast
  from u x ne yf smf have 5: "get_youtube_transcript plain_lib ?F ?url
      = (fst (ytdlp_method plain_lib ?F ''abc123'') @ fst (api_fallback ?F ''abc123''),
         snd (api_fallback ?F ''abc123''))" by blast
  have c1: "get_youtube_transcript plain_lib ?E ?url
     = ([ExtractInfo ''https://www.youtube.com/watch?v=abc123'', GetTranscript ''abc123'',
         ListTranscripts ''abc123''],
        Inl (Raise Exception ''Transcripts are disabled for this video''))"
    by (simp only: 1 2 3 m fst_conv snd_conv) simp
  have c2: "get_youtube_transcript plain_lib ?F ?url
     = ([ExtractInfo ''https://www.youtube.com/watch?v=abc123''], Inl (Raise Exception ?no))"
    by (simp only: 5 4 mf fst_conv snd_conv) simp
  from sm c1 na c2 show ?thesis by blast
qed

text \<open>
  When yt-dlp raises an exception that says the captions are disabled, the transcript API
  is called all the same, and its transcript is the answer.
\<close>

theorem first_method_failures_are_soft_counterexample:
  "snd (ytdlp_method plain_lib
          (offline_world
             \<lparr>extract_info := (\<lambda>u. Inl (Raise Exception ''captions disabled'')),
              get_transcript := (\<lambda>v. Inr [''Hello'', ''world''])\<rparr>)
          ''abc123'')
     = Inl (Raise Exception ''captions disabled'')
   \<and> get_youtube_transcript plain_lib
        (offline_world
           \<lparr>extract_info := (\<lambda>u. Inl (Raise Exception ''captions disabled'')),
            get_transcript := (\<lambda>v. Inr [''Hello'', ''world''])\<rparr>)
        ''https://youtu.be/abc123''
     = ([ExtractInfo ''https://www.youtube.com/watch?v=abc123'', GetTranscript ''abc123''],
        Inr \<lparr>res_text = ''Hello\<newline>world'', res_video_id = ''abc123'', res_language = ''en'',
             res_is_generated = True\<rparr>)"
proof -
  let ?E = "offline_world
      \<lparr>extract_info := (\<lambda>u. Inl (Raise Exception ''captions disabled'')),
       get_transcript := (\<lambda>v. Inr [''Hello'', ''world''])\<rparr>"
  have x: "extract_youtube_video_id plain_lib ''https://youtu.be/abc123'' = Inr (Some ''abc123'')"
    by code_simp
  have m: "ytdlp_method plain_lib ?E ''abc123''
      = ([ExtractInfo ''https://www.youtube.com/watch?v=abc123''],
         Inl (Raise Exception ''captions disabled''))"
    by (simp add: ytdlp_method_def)
  have f: "api_fallback ?E ''abc123''
      = ([GetTranscript ''abc123''],
         Inr \<lparr>res_text = ''Hello\<newline>world'', res_video_id = ''abc123'', res_language = ''en'',
              res_is_generated = True\<rparr>)"
    by (simp add: api_fallback_def api_method_def offline_world_def)
  have y: "YTDLP_AVAILABLE ?E" by (simp add: offline_world_def)
  have g: "get_youtube_transcript plain_lib ?E ''https://youtu.be/abc123''
     = ([ExtractInfo ''https://www.youtube.com/watch?v=abc123'', GetTranscript ''abc123''],
        Inr \<lparr>res_text = ''Hello\<newline>world'', res_video_id = ''abc123'', res_language = ''en'',
             res_is_generated = True\<rparr>)"
    using ytdlp_falls_through [OF x _ y, of "Raise Exception ''captions disabled''"]
    by (simp only: m f fst_conv snd_conv) simp
  from m g show ?thesis by simp
qed

section \<open>The priority of the subtitle formats\<close>

text \<open>
  Claim C3, as the code has it. When every track offered has a URL that is not empty, the
  track chosen is the first track of the first format, in the order json3, srv3, vtt,
  srv2, srv1, that some track has; when no track has one of these formats it is the first
  track whose format is not m3u8; and no track is chosen when there is none. So WebVTT
  comes before the XML formats srv2 and srv1, and a format is chosen only when no format
  before it in that order is offered.
\<close>

theorem track_selection_priority:
  "priority_formats = [''json3'', ''srv3'', ''vtt'', ''srv2'', ''srv1'']
   \<and> (list_all (\<lambda>t. has_text (sub_url t)) ts \<longrightarrow>
        select_subtitle ts =
          Inr (case find (\<lambda>fmt. list_ex (\<lambda>t. sub_ext t = Some fmt) ts) priority_formats of
                 Some fmt \<Rightarrow> (sub_url (the (find (\<lambda>t. sub_ext t = Some fmt) ts)), Some fmt)
               | None \<Rightarrow>
                   (case find (\<lambda>t. sub_ext t \<noteq> Some ''m3u8'') ts of
                      Some t \<Rightarrow> (sub_url t, sub_ext t)
                    | None \<Rightarrow> (None, None))))"
proof -
  have a: "priority_formats = [''json3'', ''srv3'', ''vtt'', ''srv2'', ''srv1'']"
    by (simp add: priority_formats_def)
  have b: "list_all (\<lambda>t. has_text (sub_url t)) ts \<longrightarrow>
        select_subtitle ts =
          Inr (case find (\<lambda>fmt. list_ex (\<lambda>t. sub_ext t = Some fmt) ts) priority_formats of
                 Some fmt \<Rightarrow> (sub_url (the (find (\<lambda>t. sub_ext t = Some fmt) ts)), Some fmt)
               | None \<Rightarrow>
                   (case find (\<lambda>t. sub_ext t \<noteq> Some ''m3u8'') ts of
                      Some t \<Rightarrow> (sub_url t, sub_ext t)
                    | None \<Rightarrow> (None, None)))"
    using select_subtitle_first [of ts] by blast
  from a b show ?thesis by blast
qed

theorem track_selection_priority_witness:
  "list_all (\<lambda>t. has_text (sub_url t))
     [\<lparr>sub_ext = Some ''m3u8'', sub_url = Some ''https://cdn.example/en.m3u8''\<rparr>,
      \<lparr>sub_ext = Some ''srv1'', sub_url = Some ''https://cdn.example/en.srv1''\<rparr>,
      \<lparr>sub_ext = Some ''ttml'', sub_url = Some ''https://cdn.example/en.ttml''\<rparr>,
      \<lparr>sub_ext = Some ''srv3'', sub_url = Some ''https://cdn.example/en.srv3''\<rparr>]
   \<and> select_subtitle
     [\<lparr>sub_ext = Some ''m3u8'', sub_url = Some ''https://cdn.example/en.m3u8''\<rparr>,
      \<lparr>sub_ext = Some ''srv1'', sub_url = Some ''https://cdn.example/en.srv1''\<rparr>,
      \<lparr>sub_ext = Some ''ttml'', sub_url = Some ''https://cdn.example/en.ttml''\<rparr>,
      \<lparr>sub_ext = Some ''srv3'', sub_url = Some ''https://cdn.example/en.srv3''\<rparr>]
     = Inr (Some ''https://cdn.example/en.srv3'', Some ''srv3'')
   \<and> select_subtitle
     [\<lparr>sub_ext = Some ''m3u8'', sub_url = Some ''https://cdn.example/en.m3u8''\<rparr>,
      \<lparr>sub_ext = Some ''ttml'', sub_url = Some ''https://cdn.example/en.ttml''\<rparr>]
     = Inr (Some ''https://cdn.example/en.ttml'', Some ''ttml'')"
proof -
  let ?ts = "[\<lparr>sub_ext = Some ''m3u8'', sub_url = Some ''https://cdn.example/en.m3u8''\<rparr>,
      \<lparr>sub_ext = Some ''srv1'', sub_url = Some ''https://cdn.example/en.srv1''\<rparr>,
      \<lparr>sub_ext = Some ''ttml'', sub_url = Some ''https://cdn.example/en.ttml''\<rparr>,
      \<lparr>sub_ext = Some ''srv3'', sub_url = Some ''https://cdn.example/en.srv3''\<rparr>]"
  let ?us = "[\<lparr>sub_ext = Some ''m3u8'', sub_url = Some ''https://cdn.example/en.m3u8''\<rparr>,
      \<lparr>sub_ext = Some ''ttml'', sub_url = Some ''https://cdn.example/en.ttml''\<rparr>]"
  have h1: "list_all (\<lambda>t. has_text (sub_url t)) ?ts" by simp
  have h2: "list_all (\<lambda>t. has_text (sub_url t)) ?us" by simp
  from track_selection_priority [of ?ts] h1
  have 1: "select_subtitle ?ts = Inr (Some ''https://cdn.example/en.srv3'', Some ''srv3'')"
    by (simp add: priority_formats_def)
  from track_selection_priority [of ?us] h2
  have 2: "select_subtitle ?us = Inr (Some ''https://cdn.example/en.ttml'', Some ''ttml'')"
    by (simp add: priority_formats_def)
  from h1 1 2 show ?thesis by blast
qed

text \<open>With an srv1 track and a vtt track on offer, the WebVTT track is the one chosen.\<close>

theorem track_selection_priority_counterexample:
  "select_subtitle
     [\<lparr>sub_ext = Some ''srv1'', sub_url = Some ''https://cdn.example/en.srv1''\<rparr>,
      \<lparr>sub_ext = Some ''vtt'', sub_url = Some ''https://cdn.example/en.vtt''\<rparr>]
     = Inr (Some ''https://cdn.example/en.vtt'', Some ''vtt'')"
  by (simp add: select_subtitle_def select_fallback_def priority_formats_def)

section \<open>HLS playlists are refused and the next method is tried\<close>

text \<open>
  Claim C4. A track whose extension is m3u8 is never the one chosen; when all the tracks
  offered are m3u8 playlists nothing is downloaded and \<^verbatim>\<open>get_youtube_transcript\<close> goes on
  with the fallback to the transcript API; when the body downloaded for the chosen track
  carries a playlist marker, whatever its extension said, the yt-dlp method raises, the
  exception is caught, and the function goes on with the same fallback, which calls the
  transcript API first when that library is installed.
\<close>

theorem hls_playlist_refused:
  "(select_subtitle ts = Inr (su, se) \<longrightarrow> se \<noteq> Some ''m3u8'')
   \<and> (extract_youtube_video_id L url = Inr (Some vid) \<and> vid \<noteq> [] \<and> YTDLP_AVAILABLE E
        \<and> extract_info E (''https://www.youtube.com/watch?v='' @ vid) = Inr info
        \<and> has_tracks (english_tracks info)
        \<and> list_all (\<lambda>t. sub_ext t = Some ''m3u8'') (the (english_tracks info)) \<longrightarrow>
        get_youtube_transcript L E url
          = (ExtractInfo (''https://www.youtube.com/watch?v='' @ vid) # fst (api_fallback E vid),
             snd (api_fallback E vid)))
   \<and> (extract_youtube_video_id L2 url2 = Inr (Some vid2) \<and> vid2 \<noteq> [] \<and> YTDLP_AVAILABLE E2
        \<and> extract_info E2 (''https://www.youtube.com/watch?v='' @ vid2) = Inr info2
        \<and> has_tracks (english_tracks info2)
        \<and> select_subtitle (the (english_tracks info2)) = Inr (Some u, se2) \<and> u \<noteq> []
        \<and> requests_get E2 u = Inr response \<and> status_code response = 200
        \<and> is_m3u8_playlist (response_text response) \<longrightarrow>
        snd (ytdlp_method L2 E2 vid2)
          = Inl (Raise Exception ''M3U8 playlist received instead of subtitles'')
        \<and> get_youtube_transcript L2 E2 url2
          = ([ExtractInfo (''https://www.youtube.com/watch?v='' @ vid2), HttpGet u]
               @ fst (api_fallback E2 vid2),
             snd (api_fallback E2 vid2)))
   \<and> (YOUTUBE_API_AVAILABLE E3 \<longrightarrow>
        (\<exists>rest. fst (api_fallback E3 vid3) = GetTranscript vid3 # rest))"
proof -
  have 1: "select_subtitle ts = Inr (su, se) \<longrightarrow> se \<noteq> Some ''m3u8''"
    using select_subtitle_not_m3u8 by blast
  have 2: "extract_youtube_video_id L url = Inr (Some vid) \<and> vid \<noteq> [] \<and> YTDLP_AVAILABLE E
        \<and> extract_info E (''https://www.youtube.com/watch?v='' @ vid) = Inr info
        \<and> has_tracks (english_tracks info)
        \<and> list_all (\<lambda>t. sub_ext t = Some ''m3u8'') (the (english_tracks info)) \<longrightarrow>
        get_youtube_transcript L E url
          = (ExtractInfo (''https://www.youtube.com/watch?v='' @ vid) # fst (api_fallback E vid),
             snd (api_fallback E vid))"
  proof
    assume a: "extract_youtube_video_id L url = Inr (Some vid) \<and> vid \<noteq> [] \<and> YTDLP_AVAILABLE E
        \<and> extract_info E (''https://www.youtube.com/watch?v='' @ vid) = Inr info
        \<and> has_tracks (english_tracks info)
        \<and> list_all (\<lambda>t. sub_ext t = Some ''m3u8'') (the (english_tracks info))"
    then have y: "ytdlp_method L E vid
        = ([ExtractInfo (''https://www.youtube.com/watch?v='' @ vid)], Inr None)"
      by (simp add: ytdlp_all_m3u8)
    with a ytdlp_falls_through [of L url vid E]
    show "get_youtube_transcript L E url
          = (ExtractInfo (''https://www.youtube.com/watch?v='' @ vid) # fst (api_fallback E vid),
             snd (api_fallback E vid))" by simp
  qed
  have 3: "extract_youtube_video_id L2 url2 = Inr (Some vid2) \<and> vid2 \<noteq> [] \<and> YTDLP_AVAILABLE E2
        \<and> extract_info E2 (''https://www.youtube.com/watch?v='' @ vid2) = Inr info2
        \<and> has_tracks (english_tracks info2)
        \<and> select_subtitle (the (english_tracks info2)) = Inr (Some u, se2) \<and> u \<noteq> []
        \<and> requests_get E2 u = Inr response \<and> status_code response = 200
        \<and> is_m3u8_playlist (response_text response) \<longrightarrow>
        snd (ytdlp_method L2 E2 vid2)
          = Inl (Raise Exception ''M3U8 playlist received instead of subtitles'')
        \<and> get_youtube_transcript L2 E2 url2
          = ([ExtractInfo (''https://www.youtube.com/watch?v='' @ vid2), HttpGet u]
               @ fst (api_fallback E2 vid2),
             snd (api_fallback E2 vid2))"
  proof
    assume a: "extract_youtube_video_id L2 url2 = Inr (Some vid2) \<and> vid2 \<noteq> [] \<and> YTDLP_AVAILABLE E2
        \<and> extract_info E2 (''https://www.youtube.com/watch?v='' @ vid2) = Inr info2
        \<and> has_tracks (english_tracks info2)
        \<and> select_subtitle (the (english_tracks info2)) = Inr (Some u, se2) \<and> u \<noteq> []
        \<and> requests_get E2 u = Inr response \<and> status_code response = 200
        \<and> is_m3u8_playlist (response_text response)"
    then have y: "ytdlp_method L2 E2 vid2
        = ([ExtractInfo (''https://www.youtube.com/watch?v='' @ vid2), HttpGet u],
           Inl (Raise Exception ''M3U8 playlist received instead of subtitles''))"
      by (simp add: ytdlp_m3u8_body)
    with a ytdlp_falls_through [of L2 url2 vid2 E2]
    show "snd (ytdlp_method L2 E2 vid2)
          = Inl (Raise Exception ''M3U8 playlist received instead of subtitles'')
        \<and> get_youtube_transcript L2 E2 url2
          = ([ExtractInfo (''https://www.youtube.com/watch?v='' @ vid2), HttpGet u]
               @ fst (api_fallback E2 vid2),
             snd (api_fallback E2 vid2))" by simp
  qed
  have 4: "YOUTUBE_API_AVAILABLE E3 \<longrightarrow>
        (\<exists>rest. fst (api_fallback E3 vid3) = GetTranscript vid3 # rest)"
    using api_method_first_call [of E3 vid3] by (simp add: api_fallback_def)
  from 1 2 3 4 show ?thesis by blast
qed

theorem hls_playlist_refused_witness:
  "select_subtitle
      [\<lparr>sub_ext = Some ''m3u8'', sub_url = Some ''https://cdn.example/en.m3u8''\<rparr>,
       \<lparr>sub_ext = Some ''vtt'', sub_url = Some ''https://cdn.example/en.vtt''\<rparr>]
     = Inr (Some ''https://cdn.example/en.vtt'', Some ''vtt'')
   \<and> Some ''vtt'' \<noteq> Some ''m3u8''
   \<and> get_youtube_transcript plain_lib
        (offline_world
           \<lparr>extract_info := (\<lambda>u. Inr \<lparr>subtitles_en = None, automatic_captions_en =
                 Some [\<lparr>sub_ext = Some ''m3u8'', sub_url = Some ''https://cdn.example/en.m3u8''\<rparr>]\<rparr>),
            get_transcript := (\<lambda>v. Inr [''Hello'', ''world''])\<rparr>)
        ''https://youtu.be/abc123''
     = ([ExtractInfo ''https://www.youtube.com/watch?v=abc123'', GetTranscript ''abc123''],
        Inr \<lparr>res_text = ''Hello\<newline>world'', res_video_id = ''abc123'', res_language = ''en'',
             res_is_generated = True\<rparr>)
   \<and> get_youtube_transcript plain_lib
        (offline_world
           \<lparr>extract_info := (\<lambda>u. Inr \<lparr>subtitles_en =
                 Some [\<lparr>sub_ext = Some ''vtt'', sub_url = Some ''https://cdn.example/en.vtt''\<rparr>],
                 automatic_captions_en = None\<rparr>),
            requests_get := (\<lambda>u. Inr \<lparr>status_code = 200,
                 response_text = ''#EXTM3U\<newline>#EXT-X-VERSION:3''\<rparr>),
            get_transcript := (\<lambda>v. Inr [''Hello'', ''world''])\<rparr>)
        ''https://youtu.be/abc123''
     = ([ExtractInfo ''https://www.youtube.com/watch?v=abc123'',
         HttpGet ''https://cdn.example/en.vtt'', GetTranscript ''abc123''],
        Inr \<lparr>res_text = ''Hello\<newline>world'', res_video_id = ''abc123'', res_language = ''en'',
             res_is_generated = True\<rparr>)"
proof -
  let ?m = "\<lparr>sub_ext = Some ''m3u8'', sub_url = Some ''https://cdn.example/en.m3u8''\<rparr>"
  let ?v = "\<lparr>sub_ext = Some ''vtt'', sub_url = Some ''https://cdn.example/en.vtt''\<rparr>"
  let ?i1 = "\<lparr>subtitles_en = None, automatic_captions_en = Some [?m]\<rparr>"
  let ?i2 = "\<lparr>subtitles_en = Some [?v], automatic_captions_en = None\<rparr>"
  let ?r = "\<lparr>status_code = 200, response_text = ''#EXTM3U\<newline>#EXT-X-VERSION:3''\<rparr>"
  let ?E1 = "offline_world\<lparr>extract_info := (\<lambda>u. Inr ?i1),
      get_transcript := (\<lambda>v. Inr [''Hello'', ''world''])\<rparr>"
  let ?E2 = "offline_world\<lparr>extract_info := (\<lambda>u. Inr ?i2), requests_get := (\<lambda>u. Inr ?r),
      get_transcript := (\<lambda>v. Inr [''Hello'', ''world''])\<rparr>"
  let ?url = "''https://youtu.be/abc123''"
  let ?w = "''https://www.youtube.com/watch?v=abc123''"
  have s: "select_subtitle [?m, ?v] = Inr (Some ''https://cdn.example/en.vtt'', Some ''vtt'')"
    by (simp add: select_subtitle_def select_fallback_def priority_formats_def)
  have x: "extract_youtube_video_id plain_lib ?url = Inr (Some ''abc123'')" by code_simp
  have y1: "YTDLP_AVAILABLE ?E1" and y2: "YTDLP_AVAILABLE ?E2"
    and a1: "YOUTUBE_API_AVAILABLE ?E1" and a2: "YOUTUBE_API_AVAILABLE ?E2"
    by (simp_all add: offline_world_def)
  have e1: "extract_info ?E1 (''https://www.youtube.com/watch?v='' @ ''abc123'') = Inr ?i1"
    and e2: "extract_info ?E2 (''https://www.youtube.com/watch?v='' @ ''abc123'') = Inr ?i2"
    by simp_all
  have t1: "has_tracks (english_tracks ?i1)"
    and m1: "list_all (\<lambda>t. sub_ext t = Some ''m3u8'') (the (english_tracks ?i1))"
    and t2: "has_tracks (english_tracks ?i2)"
    by (simp_all add: english_tracks_def)
  have s2: "select_subtitle (the (english_tracks ?i2))
      = Inr (Some ''https://cdn.example/en.vtt'', Some ''vtt'')"
    by (simp add: english_tracks_def select_subtitle_def select_fallback_def priority_formats_def)
  have g: "requests_get ?E2 ''https://cdn.example/en.vtt'' = Inr ?r" by simp
  have st: "status_code ?r = 200" by simp
  have pl: "is_m3u8_playlist (response_text ?r)" by (simp add: is_m3u8_playlist_def)
  have f1: "api_fallback ?E1 ''abc123''
      = ([GetTranscript ''abc123''],
         Inr \<lparr>res_text = ''Hello\<newline>world'', res_video_id = ''abc123'', res_language = ''en'',
              res_is_generated = True\<rparr>)"
    by (simp add: api_fallback_def api_method_def offline_world_def)
  have f2: "api_fallback ?E2 ''abc123''
      = ([GetTranscript ''abc123''],
         Inr \<lparr>res_text = ''Hello\<newline>world'', res_video_id = ''abc123'', res_language = ''en'',
              res_is_generated = True\<rparr>)"
    by (simp add: api_fallback_def api_method_def offline_world_def)
  note h = hls_playlist_refused [where ts = "[?m, ?v]" and su = "Some ''https://cdn.example/en.vtt''"
      and se = "Some ''vtt''" and L = plain_lib and url = ?url and vid = "''abc123''" and E = ?E1
      and info = ?i1 and ?L2.0 = plain_lib and ?url2.0 = ?url and ?vid2.0 = "''abc123''"
      and ?E2.0 = ?E2 and ?info2.0 = ?i2 and u = "''https://cdn.example/en.vtt''"
      and ?se2.0 = "Some ''vtt''" and response = ?r and ?E3.0 = ?E1 and ?vid3.0 = "''abc123''"]
  from h s have c1: "Some ''vtt'' \<noteq> Some ''m3u8''" by blast
  from h x y1 e1 t1 m1 have "get_youtube_transcript plain_lib ?E1 ?url
      = (ExtractInfo (''https://www.youtube.com/watch?v='' @ ''abc123'') # fst (api_fallback ?E1 ''abc123''),
         snd (api_fallback ?E1 ''abc123''))" by blast
  then have c2: "get_youtube_transcript plain_lib ?E1 ?url
     = ([ExtractInfo ?w, GetTranscript ''abc123''],
        Inr \<lparr>res_text = ''Hello\<newline>world'', res_video_id = ''abc123'', res_language = ''en'',
             res_is_generated = True\<rparr>)"
    by (simp only: f1 fst_conv snd_conv) simp
  from h x y2 e2 t2 s2 g st pl have "get_youtube_transcript plain_lib ?E2 ?url
      = ([ExtractInfo (''https://www.youtube.com/watch?v='' @ ''abc123''),
          HttpGet ''https://cdn.example/en.vtt''] @ fst (api_fallback ?E2 ''abc123''),
         snd (api_fallback ?E2 ''abc123''))" by blast
  then have c3: "get_youtube_transcript plain_lib ?E2 ?url
     = ([ExtractInfo ?w, HttpGet ''https://cdn.example/en.vtt'', GetTranscript ''abc123''],
        Inr \<lparr>res_text = ''Hello\<newline>world'', res_video_id = ''abc123'', res_language = ''en'',
             res_is_generated = True\<rparr>)"
    by (simp only: f2 fst_conv snd_conv) simp
  from s c1 c2 c3 show ?thesis by blast
qed

section \<open>Decoding the subtitle formats\<close>

text \<open>
  Claim C5, as the code has it. Whatever the format, the text that the decoding of a
  track gives is single-spaced once it is cleaned up: every run of whitespace is one
  space and there is none at either end. The XML branch joins cues and the WebVTT branch
  joins lines that are not empty and in which no tag \<^verbatim>\<open><...>\<close> is left. A track of any
  other format without \<^verbatim>\<open>WEBVTT\<close> in it is passed through as it is. The WebVTT track
  with the header, the cue number 1, a timing line and the cue \<^verbatim>\<open>Hello <b>world</b>\<close>
  decodes to \<^verbatim>\<open>Hello world\<close>.
\<close>

theorem subtitle_decoding:
  "(parse_subtitle lds ext content = Inr full_text \<longrightarrow> single_spaced (clean_up_text full_text))
   \<and> (\<exists>cues. parse_srv content2 = py_join '' '' cues
          \<and> list_all (\<lambda>cue. \<not> has_tag cue \<and> cue \<noteq> []) cues)
   \<and> (\<exists>lines. parse_vtt content3 = py_join '' '' lines
          \<and> list_all (\<lambda>line. \<not> has_tag line \<and> line \<noteq> []) lines)
   \<and> (ext4 \<noteq> Some ''json3'' \<and> ext4 \<noteq> Some ''srv1'' \<and> ext4 \<noteq> Some ''srv2''
        \<and> ext4 \<noteq> Some ''srv3'' \<and> ext4 \<noteq> Some ''vtt'' \<and> \<not> py_in ''WEBVTT'' content4 \<longrightarrow>
        parse_subtitle lds4 ext4 content4 = Inr content4)
   \<and> parse_subtitle lds5 (Some ''vtt'')
         ''WEBVTT\<newline>1\<newline>00:00:01.000 --> 00:00:03.000\<newline>Hello <b>world</b>''
       = Inr ''Hello world''
   \<and> clean_up_text ''Hello world'' = ''Hello world''"
proof -
  have 1: "parse_subtitle lds ext content = Inr full_text \<longrightarrow> single_spaced (clean_up_text full_text)"
    by (simp add: clean_up_text_single_spaced)
  have 2: "\<exists>cues. parse_srv content2 = py_join '' '' cues
          \<and> list_all (\<lambda>cue. \<not> has_tag cue \<and> cue \<noteq> []) cues"
    unfolding parse_srv_def
    by (rule exI [of _ "filter (\<lambda>t. t \<noteq> []) (map srv_cue_text (findall_text content2))"])
       (auto simp: list_all_iff srv_cue_text_no_tag)
  have 3: "\<exists>lines. parse_vtt content3 = py_join '' '' lines
          \<and> list_all (\<lambda>line. \<not> has_tag line \<and> line \<noteq> []) lines"
    unfolding parse_vtt_def
    by (rule exI [of _ "vtt_lines content3"])
       (auto simp: list_all_iff vtt_lines_def strip_tags_no_tag)
  have 4: "ext4 \<noteq> Some ''json3'' \<and> ext4 \<noteq> Some ''srv1'' \<and> ext4 \<noteq> Some ''srv2''
        \<and> ext4 \<noteq> Some ''srv3'' \<and> ext4 \<noteq> Some ''vtt'' \<and> \<not> py_in ''WEBVTT'' content4 \<longrightarrow>
        parse_subtitle lds4 ext4 content4 = Inr content4"
    by (simp add: parse_subtitle_def)
  have 5: "parse_subtitle lds5 (Some ''vtt'')
         ''WEBVTT\<newline>1\<newline>00:00:01.000 --> 00:00:03.000\<newline>Hello <b>world</b>''
       = Inr ''Hello world''"
    by code_simp
  have 6: "clean_up_text ''Hello world'' = ''Hello world''" by code_simp
  from 1 2 3 4 5 6 show ?thesis by blast
qed

theorem subtitle_decoding_witness:
  "parse_subtitle (Inl \<circ> Raise ValueError) (Some ''srv3'')
       ''<transcript><text start=1>Hello   &amp; <i>good</i></text><text>  morning </text></transcript>''
     = Inr ''Hello   & good morning''
   \<and> single_spaced (clean_up_text ''Hello   & good morning'')
   \<and> clean_up_text ''Hello   & good morning'' = ''Hello & good morning''
   \<and> \<not> py_in ''WEBVTT'' ''plain words''
   \<and> parse_subtitle (Inl \<circ> Raise ValueError) (Some ''ttml'') ''plain words'' = Inr ''plain words''"
proof -
  let ?l = "Inl \<circ> Raise ValueError :: string \<Rightarrow> exn + json"
  let ?c = "''<transcript><text start=1>Hello   &amp; <i>good</i></text><text>  morning </text></transcript>''"
  have h1: "parse_subtitle ?l (Some ''srv3'') ?c = Inr ''Hello   & good morning''"
    by code_simp
  have h2: "\<not> py_in ''WEBVTT'' ''plain words''" by code_simp
  have h3: "clean_up_text ''Hello   & good morning'' = ''Hello & good morning''" by code_simp
  note d = subtitle_decoding [where lds = ?l and ext = "Some ''srv3''" and content = ?c
      and full_text = "''Hello   & good morning''" and ?ext4.0 = "Some ''ttml''"
      and ?content4.0 = "''plain words''" and ?lds4.0 = ?l]
  from d h1 h2 h3 show ?thesis by simp
qed

text \<open>
  The WebVTT branch replaces no entity: the cue \<^verbatim>\<open>Tom &amp; Jerry\<close> is decoded to itself.
  A track that is passed through keeps its tags and its entities.
\<close>

theorem subtitle_decoding_counterexample:
  "parse_subtitle (Inl \<circ> Raise ValueError) (Some ''vtt'')
       ''WEBVTT\<newline>\<newline>00:00:01.000 --> 00:00:03.000\<newline>Tom &amp; Jerry''
     = Inr ''Tom &amp; Jerry''
   \<and> clean_up_text ''Tom &amp; Jerry'' = ''Tom &amp; Jerry''
   \<and> py_in ''&amp;'' ''Tom &amp; Jerry''
   \<and> parse_subtitle (Inl \<circ> Raise ValueError) (Some ''ttml'') ''<p>Tom &amp; Jerry</p>''
     = Inr ''<p>Tom &amp; Jerry</p>''
   \<and> clean_up_text ''<p>Tom &amp; Jerry</p>'' = ''<p>Tom &amp; Jerry</p>''
   \<and> has_tag ''<p>Tom &amp; Jerry</p>''"
proof -
  let ?l = "Inl \<circ> Raise ValueError :: string \<Rightarrow> exn + json"
  have 1: "parse_subtitle ?l (Some ''vtt'')
       ''WEBVTT\<newline>\<newline>00:00:01.000 --> 00:00:03.000\<newline>Tom &amp; Jerry''
     = Inr ''Tom &amp; Jerry''" by code_simp
  have 2: "clean_up_text ''Tom &amp; Jerry'' = ''Tom &amp; Jerry''" by code_simp
  have 3: "py_in ''&amp;'' ''Tom &amp; Jerry''" by code_simp
  have 4: "parse_subtitle ?l (Some ''ttml'') ''<p>Tom &amp; Jerry</p>''
     = Inr ''<p>Tom &amp; Jerry</p>''" by code_simp
  have 5: "clean_up_text ''<p>Tom &amp; Jerry</p>'' = ''<p>Tom &amp; Jerry</p>''" by code_simp
  have 6: "has_tag ''<p>Tom &amp; Jerry</p>''" by code_simp
  from 1 2 3 4 5 6 show ?thesis by blast
qed

section \<open>Cleaning a YouTube URL\<close>

text \<open>
  Claim C6. For \<^verbatim>\<open>https://www.youtube.com/watch?v=abc123&list=xyz\<close> the identifier found
  is \<^verbatim>\<open>abc123\<close> and the clean URL is \<^verbatim>\<open>https://www.youtube.com/watch?v=abc123\<close>. But a
  long-form URL in which \<^verbatim>\<open>youtu.be\<close> occurs, as in the parameter \<^verbatim>\<open>feature=youtu.be\<close>, is
  returned by \<^verbatim>\<open>clean_youtube_url\<close> as it is, with all its parameters: the branch for
  \<^verbatim>\<open>youtube.com\<close> is an \<^verbatim>\<open>elif\<close> there, and is not tried once the short-link pattern has found
  nothing. \<^verbatim>\<open>extract_youtube_video_id\<close>, where the same branch is an \<^verbatim>\<open>if\<close>, finds the
  identifier of that URL.
\<close>

theorem clean_youtube_url_keeps_parameters:
  "clean_youtube_url L ''https://www.youtube.com/watch?v=abc123&feature=youtu.be''
     = Inr ''https://www.youtube.com/watch?v=abc123&feature=youtu.be''
   \<and> extract_youtube_video_id L ''https://www.youtube.com/watch?v=abc123&feature=youtu.be''
     = Inr (Some ''abc123'')
   \<and> clean_youtube_url L ''https://www.youtube.com/watch?v=abc123&list=xyz''
     = Inr ''https://www.youtube.com/watch?v=abc123''
   \<and> extract_youtube_video_id L ''https://www.youtube.com/watch?v=abc123&list=xyz''
     = Inr (Some ''abc123'')"
proof -
  have 1: "clean_youtube_url L ''https://www.youtube.com/watch?v=abc123&feature=youtu.be''
     = Inr ''https://www.youtube.com/watch?v=abc123&feature=youtu.be''" by code_simp
  have 2: "extract_youtube_video_id L ''https://www.youtube.com/watch?v=abc123&feature=youtu.be''
     = Inr (Some ''abc123'')" by code_simp
  have 3: "clean_youtube_url L ''https://www.youtube.com/watch?v=abc123&list=xyz''
     = Inr ''https://www.youtube.com/watch?v=abc123''" by code_simp
  have 4: "extract_youtube_video_id L ''https://www.youtube.com/watch?v=abc123&list=xyz''
     = Inr (Some ''abc123'')" by code_simp
  from 1 2 3 4 show ?thesis by blast
qed

section \<open>A URL without a video identifier\<close>

text \<open>
  Claim C7. For a URL that names a YouTube host, in which the short-link pattern finds no
  identifier and whose query has no parameter \<^verbatim>\<open>v\<close>, \<^verbatim>\<open>get_youtube_transcript\<close> raises
  \<^verbatim>\<open>ValueError\<close> before any call to the outside, with the message
  \<^verbatim>\<open>Could not extract video ID from URL\<close> unless \<^verbatim>\<open>urlparse\<close> itself raised; and
  \<^verbatim>\<open>clean_youtube_url\<close> makes no canonical URL: what it returns is the URL it was given.
\<close>

theorem no_video_id_is_an_error:
  "(py_in ''youtube.com'' url \<or> py_in ''youtu.be'' url) \<and> search_youtu_be url = None
     \<and> (\<forall>parsed. urlparse L url = Inr parsed \<longrightarrow> \<not> has_text (parse_qs_first L (query parsed) ''v''))
   \<longrightarrow>
   (\<exists>msg. get_youtube_transcript L E url = ([], Inl (Raise ValueError msg)))
   \<and> (\<forall>vid. extract_youtube_video_id L url = Inr vid \<longrightarrow>
         get_youtube_transcript L E url
           = ([], Inl (Raise ValueError (''Could not extract video ID from URL: '' @ url))))
   \<and> (\<forall>cleaned. clean_youtube_url L url = Inr cleaned \<longrightarrow> cleaned = url)"
proof
  assume a: "(py_in ''youtube.com'' url \<or> py_in ''youtu.be'' url) \<and> search_youtu_be url = None
     \<and> (\<forall>parsed. urlparse L url = Inr parsed \<longrightarrow> \<not> has_text (parse_qs_first L (query parsed) ''v''))"
  have x: "\<And>vid. extract_youtube_video_id L url = Inr vid \<Longrightarrow> \<not> has_text vid"
    using a by (auto simp: extract_youtube_video_id_def split: if_splits sum.splits)
  have e: "\<And>e. extract_youtube_video_id L url = Inl e \<Longrightarrow> e = Raise ValueError ''netloc is not accepted''"
    by (auto simp: extract_youtube_video_id_def split: if_splits sum.splits dest: urlparse_error)
  have 2: "\<forall>vid. extract_youtube_video_id L url = Inr vid \<longrightarrow>
         get_youtube_transcript L E url
           = ([], Inl (Raise ValueError (''Could not extract video ID from URL: '' @ url)))"
    using x by (auto simp: get_youtube_transcript_def)
  have 1: "\<exists>msg. get_youtube_transcript L E url = ([], Inl (Raise ValueError msg))"
  proof (cases "extract_youtube_video_id L url")
    case (Inl err)
    with e [of err] show ?thesis by (simp add: get_youtube_transcript_def)
  next
    case (Inr vid)
    with 2 show ?thesis by blast
  qed
  have 3: "\<forall>cleaned. clean_youtube_url L url = Inr cleaned \<longrightarrow> cleaned = url"
    using a by (auto simp: clean_youtube_url_def split: if_splits sum.splits)
  from 1 2 3 show "(\<exists>msg. get_youtube_transcript L E url = ([], Inl (Raise ValueError msg)))
   \<and> (\<forall>vid. extract_youtube_video_id L url = Inr vid \<longrightarrow>
         get_youtube_transcript L E url
           = ([], Inl (Raise ValueError (''Could not extract video ID from URL: '' @ url))))
   \<and> (\<forall>cleaned. clean_youtube_url L url = Inr cleaned \<longrightarrow> cleaned = url)" by blast
qed

theorem no_video_id_is_an_error_witness:
  "py_in ''youtube.com'' ''https://www.youtube.com/feed/subscriptions?list=xyz''
   \<and> search_youtu_be ''https://www.youtube.com/feed/subscriptions?list=xyz'' = None
   \<and> urlparse plain_lib ''https://www.youtube.com/feed/subscriptions?list=xyz''
       = Inr \<lparr>netloc = ''www.youtube.com'', path = ''/feed/subscriptions'', query = ''list=xyz''\<rparr>
   \<and> parse_qs_first plain_lib ''list=xyz'' ''v'' = None
   \<and> get_youtube_transcript plain_lib offline_world
         ''https://www.youtube.com/feed/subscriptions?list=xyz''
       = ([], Inl (Raise ValueError
           ''Could not extract video ID from URL: https://www.youtube.com/feed/subscriptions?list=xyz''))
   \<and> clean_youtube_url plain_lib ''https://www.youtube.com/feed/subscriptions?list=xyz''
       = Inr ''https://www.youtube.com/feed/subscriptions?list=xyz''"
proof -
  let ?url = "''https://www.youtube.com/feed/subscriptions?list=xyz''"
  have h1: "py_in ''youtube.com'' ?url" by code_simp
  have h2: "search_youtu_be ?url = None" by code_simp
  have h3: "urlparse plain_lib ?url
       = Inr \<lparr>netloc = ''www.youtube.com'', path = ''/feed/subscriptions'', query = ''list=xyz''\<rparr>"
    by code_simp
  have h4: "parse_qs_first plain_lib ''list=xyz'' ''v'' = None" by code_simp
  from h3 h4 have h5: "\<forall>parsed. urlparse plain_lib ?url = Inr parsed
      \<longrightarrow> \<not> has_text (parse_qs_first plain_lib (query parsed) ''v'')" by auto
  have x: "extract_youtube_video_id plain_lib ?url = Inr None" by code_simp
  have c: "clean_youtube_url plain_lib ?url = Inr ?url" by code_simp
  note n = no_video_id_is_an_error [where url = ?url and L = plain_lib and E = offline_world]
  from n h1 h2 h5 x have g: "get_youtube_transcript plain_lib offline_world ?url
           = ([], Inl (Raise ValueError (''Could not extract video ID from URL: '' @ ?url)))"
    by blast
  then have g': "get_youtube_transcript plain_lib offline_world ?url
       = ([], Inl (Raise ValueError
           ''Could not extract video ID from URL: https://www.youtube.com/feed/subscriptions?list=xyz''))"
    by simp
  from h1 h2 h3 h4 g' c show ?thesis by blast
qed

section \<open>Properties of \<^verbatim>\<open>sanitize_filename\<close>\<close>

text \<open>
  Claim C8, as the code has it. The name returned has none of the nine punctuation
  characters \<^verbatim>\<open>< > : " / \ | ? *\<close> and no control character 0 to 31. It has at most 255
  characters whenever the extension of the cleaned name has at most 255. Sanitizing it
  again changes nothing whenever it has at most 255 characters and neither starts nor
  ends with a space or a dot, which is so whenever the cleaned name had at most 255
  characters and nothing was cut. Cutting a name of more than 255 characters can leave a
  space or a dot at its end, which a second call removes.
\<close>

theorem sanitize_filename_properties:
  "list_all (\<lambda>c. \<not> reserved_char c) (sanitize_filename L x)
   \<and> (length (snd (splitext (cleaned_name L x2))) \<le> 255 \<longrightarrow>
        length (sanitize_filename L x2) \<le> 255)
   \<and> (length (sanitize_filename L x3) \<le> 255
        \<and> strip_chars ''. '' (sanitize_filename L x3) = sanitize_filename L x3 \<longrightarrow>
        sanitize_filename L (sanitize_filename L x3) = sanitize_filename L x3)
   \<and> (length (cleaned_name L x4) \<le> 255 \<longrightarrow>
        sanitize_filename L (sanitize_filename L x4) = sanitize_filename L x4)"
proof -
  have 1: "list_all (\<lambda>c. \<not> reserved_char c) (sanitize_filename L x)"
    by (rule sanitize_filename_clean)
  have 2: "length (snd (splitext (cleaned_name L x2))) \<le> 255 \<longrightarrow>
        length (sanitize_filename L x2) \<le> 255"
    by (simp add: sanitize_filename_def length_limit_length)
  have ne: "\<And>y. sanitize_filename L y \<noteq> []"
    by (simp add: sanitize_filename_def limit_length_nonempty cleaned_name_nonempty)
  have 3: "length (sanitize_filename L x3) \<le> 255
        \<and> strip_chars ''. '' (sanitize_filename L x3) = sanitize_filename L x3 \<longrightarrow>
        sanitize_filename L (sanitize_filename L x3) = sanitize_filename L x3"
    using sanitize_fixed_point [OF sanitize_filename_clean [of L x3] ne [of x3]] by blast
  have 4: "length (cleaned_name L x4) \<le> 255 \<longrightarrow>
        sanitize_filename L (sanitize_filename L x4) = sanitize_filename L x4"
  proof
    assume l: "length (cleaned_name L x4) \<le> 255"
    then have s: "sanitize_filename L x4 = cleaned_name L x4"
      by (simp add: sanitize_filename_def limit_length_def)
    have "sanitize_filename L (cleaned_name L x4) = cleaned_name L x4"
      using cleaned_name_clean cleaned_name_nonempty cleaned_name_stripped l
      by (rule sanitize_fixed_point)
    with s show "sanitize_filename L (sanitize_filename L x4) = sanitize_filename L x4" by simp
  qed
  from 1 2 3 4 show ?thesis by blast
qed

theorem sanitize_filename_properties_witness:
  "sanitize_filename plain_lib ''my file:name?.txt'' = ''my file_name_.txt''
   \<and> list_all (\<lambda>c. \<not> reserved_char c) (sanitize_filename plain_lib ''my file:name?.txt'')
   \<and> length (snd (splitext (cleaned_name plain_lib (replicate 300 CHR ''a'' @ ''.txt'')))) \<le> 255
   \<and> length (sanitize_filename plain_lib (replicate 300 CHR ''a'' @ ''.txt'')) \<le> 255
   \<and> sanitize_filename plain_lib (replicate 300 CHR ''a'' @ ''.txt'')
       = replicate 251 CHR ''a'' @ ''.txt''
   \<and> sanitize_filename plain_lib (sanitize_filename plain_lib (replicate 300 CHR ''a'' @ ''.txt''))
       = sanitize_filename plain_lib (replicate 300 CHR ''a'' @ ''.txt'')
   \<and> length (cleaned_name plain_lib ''my file:name?.txt'') \<le> 255
   \<and> sanitize_filename plain_lib (sanitize_filename plain_lib ''my file:name?.txt'')
       = sanitize_filename plain_lib ''my file:name?.txt''"
proof -
  let ?a = "''my file:name?.txt''"
  let ?b = "replicate 300 CHR ''a'' @ ''.txt''"
  have v: "sanitize_filename plain_lib ?a = ''my file_name_.txt''" by code_simp
  have h2: "length (snd (splitext (cleaned_name plain_lib ?b))) \<le> 255" by code_simp
  have w: "sanitize_filename plain_lib ?b = replicate 251 CHR ''a'' @ ''.txt''" by code_simp
  have h3: "length (sanitize_filename plain_lib ?b) \<le> 255" unfolding w by simp
  have h3': "strip_chars ''. '' (sanitize_filename plain_lib ?b) = sanitize_filename plain_lib ?b"
    unfolding w by code_simp
  have h4: "length (cleaned_name plain_lib ?a) \<le> 255" by code_simp
  note p = sanitize_filename_properties [where L = plain_lib and x = ?a and ?x2.0 = ?b
      and ?x3.0 = ?b and ?x4.0 = ?a]
  from p v h2 w h3 h3' h4 show ?thesis by blast
qed

text \<open>
  A name of 254 letters, a space and one more letter is cut behind the space; the second
  call strips that space. A name whose extension has 301 characters is returned with all
  of them.
\<close>

theorem sanitize_filename_properties_counterexample:
  "sanitize_filename plain_lib (replicate 254 CHR ''a'' @ '' b'') = replicate 254 CHR ''a'' @ '' ''
   \<and> sanitize_filename plain_lib (sanitize_filename plain_lib (replicate 254 CHR ''a'' @ '' b''))
       = replicate 254 CHR ''a''
   \<and> sanitize_filename plain_lib (sanitize_filename plain_lib (replicate 254 CHR ''a'' @ '' b''))
       \<noteq> sanitize_filename plain_lib (replicate 254 CHR ''a'' @ '' b'')
   \<and> length (sanitize_filename plain_lib (''a.'' @ replicate 300 CHR ''b'')) = 301"
proof -
  have 1: "sanitize_filename plain_lib (replicate 254 CHR ''a'' @ '' b'')
      = replicate 254 CHR ''a'' @ '' ''" by code_simp
  have 2: "sanitize_filename plain_lib (replicate 254 CHR ''a'' @ '' '') = replicate 254 CHR ''a''"
    by code_simp
  have 3: "replicate 254 CHR ''a'' \<noteq> replicate 254 CHR ''a'' @ '' ''" by simp
  have 4: "length (sanitize_filename plain_lib (''a.'' @ replicate 300 CHR ''b'')) = 301"
    by code_simp
  from 1 2 3 4 show ?thesis by simp
qed

section \<open>Listing the saved sessions\<close>

text \<open>
  Claim C9, as the code has it. With the storage path set, when the record file of every
  directory of the listing that has one reads as a record whose \<^verbatim>\<open>updated_at\<close> is a text,
  \<^verbatim>\<open>load_sessions\<close> answers one summary for each directory that has a record file, the
  directories without one being skipped, in the descending order of \<^verbatim>\<open>updated_at\<close>. When
  some directory of the listing has a record file that cannot be opened or parsed, the
  exception is not caught in the loop and the whole call fails with status 500.
\<close>

theorem load_sessions_summaries:
  "(has_text STORAGE_PATH
      \<and> list_all (\<lambda>entry. record_file D entry \<noteq> None \<longrightarrow>
            \<not> isl (entry_summary L D entry) \<and> text_key (projr (entry_summary L D entry))) listing
    \<longrightarrow>
     (\<exists>sessions.
        load_sessions L STORAGE_PATH listing D = Success sessions
        \<and> sessions = rev (sort_key updated_text (rev
             (map (\<lambda>entry. projr (entry_summary L D entry))
                (filter (\<lambda>entry. record_file D entry \<noteq> None) listing))))
        \<and> mset sessions = mset (map (\<lambda>entry. projr (entry_summary L D entry))
                (filter (\<lambda>entry. record_file D entry \<noteq> None) listing))
        \<and> sorted_wrt (\<lambda>a b. updated_text b \<le> updated_text a) sessions))
   \<and> (has_text STORAGE_PATH2
        \<and> list_ex (\<lambda>entry. record_file D2 entry \<noteq> None
              \<and> isl (read_json L2 (the (record_file D2 entry)))) listing2
       \<longrightarrow> (\<exists>msg. load_sessions L2 STORAGE_PATH2 listing2 D2 = Failure 500 msg))"
proof -
  have 1: "has_text STORAGE_PATH
      \<and> list_all (\<lambda>entry. record_file D entry \<noteq> None \<longrightarrow>
            \<not> isl (entry_summary L D entry) \<and> text_key (projr (entry_summary L D entry))) listing
    \<longrightarrow>
     (\<exists>sessions.
        load_sessions L STORAGE_PATH listing D = Success sessions
        \<and> sessions = rev (sort_key updated_text (rev
             (map (\<lambda>entry. projr (entry_summary L D entry))
                (filter (\<lambda>entry. record_file D entry \<noteq> None) listing))))
        \<and> mset sessions = mset (map (\<lambda>entry. projr (entry_summary L D entry))
                (filter (\<lambda>entry. record_file D entry \<noteq> None) listing))
        \<and> sorted_wrt (\<lambda>a b. updated_text b \<le> updated_text a) sessions)"
  proof
    assume a: "has_text STORAGE_PATH
      \<and> list_all (\<lambda>entry. record_file D entry \<noteq> None \<longrightarrow>
            \<not> isl (entry_summary L D entry) \<and> text_key (projr (entry_summary L D entry))) listing"
    let ?ss = "map (\<lambda>entry. projr (entry_summary L D entry))
                (filter (\<lambda>entry. record_file D entry \<noteq> None) listing)"
    let ?r = "rev (sort_key updated_text (rev ?ss))"
    from a have "list_all (\<lambda>entry. record_file D entry \<noteq> None \<longrightarrow> \<not> isl (entry_summary L D entry))
        listing" by (simp add: list_all_iff)
    then have c: "collect_sessions L D listing = Inr ?ss" by (rule collect_sessions_expected)
    from a have "list_all text_key ?ss" by (simp add: list_all_iff)
    then have s: "py_sort_reverse L sum_updated_at ?ss = Inr ?r" by (rule py_sort_reverse_text)
    from a c s have l: "load_sessions L STORAGE_PATH listing D = Success ?r"
      by (simp add: load_sessions_def)
    have m: "mset ?r = mset ?ss" by simp
    have o: "sorted_wrt (\<lambda>a b. updated_text b \<le> updated_text a) ?r" by (rule sorted_descending)
    from l m o show "\<exists>sessions.
        load_sessions L STORAGE_PATH listing D = Success sessions
        \<and> sessions = rev (sort_key updated_text (rev ?ss))
        \<and> mset sessions = mset ?ss
        \<and> sorted_wrt (\<lambda>a b. updated_text b \<le> updated_text a) sessions" by blast
  qed
  have 2: "has_text STORAGE_PATH2
        \<and> list_ex (\<lambda>entry. record_file D2 entry \<noteq> None
              \<and> isl (read_json L2 (the (record_file D2 entry)))) listing2
       \<longrightarrow> (\<exists>msg. load_sessions L2 STORAGE_PATH2 listing2 D2 = Failure 500 msg)"
  proof
    assume a: "has_text STORAGE_PATH2
        \<and> list_ex (\<lambda>entry. record_file D2 entry \<noteq> None
              \<and> isl (read_json L2 (the (record_file D2 entry)))) listing2"
    then have "isl (collect_sessions L2 D2 listing2)" by (simp add: collect_sessions_unreadable)
    then obtain e where "collect_sessions L2 D2 listing2 = Inl e" by (auto simp: isl_def)
    with a show "\<exists>msg. load_sessions L2 STORAGE_PATH2 listing2 D2 = Failure 500 msg"
      by (simp add: load_sessions_def)
  qed
  from 1 2 show ?thesis by blast
qed

theorem load_sessions_summaries_witness:
  "load_sessions plain_lib (Some ''/data'')
      [(''/data/chat_1'', True), (''/data/chat_2'', True), (''/data/chat_3'', True),
       (''/data/chat_notes.txt'', False)]
      \<lparr>files = [''/data/chat_1/session.json'' \<mapsto> JsonFile (example_record ''1'' ''2024-05-01T10:00:00''),
                ''/data/chat_3/session.json'' \<mapsto> JsonFile (example_record ''3'' ''2024-06-01T10:00:00'')],
       can_write = (\<lambda>p. True)\<rparr>
     = Success
         [\<lparr>sum_chat_id = JStr ''3'', sum_title = JStr ''Notes'',
           sum_created_at = JStr ''2024-01-01T09:00:00'', sum_updated_at = JStr ''2024-06-01T10:00:00'',
           message_count = 1\<rparr>,
          \<lparr>sum_chat_id = JStr ''1'', sum_title = JStr ''Notes'',
           sum_created_at = JStr ''2024-01-01T09:00:00'', sum_updated_at = JStr ''2024-05-01T10:00:00'',
           message_count = 1\<rparr>]
   \<and> sorted_wrt (\<lambda>a b. updated_text b \<le> updated_text a)
         [\<lparr>sum_chat_id = JStr ''3'', sum_title = JStr ''Notes'',
           sum_created_at = JStr ''2024-01-01T09:00:00'', sum_updated_at = JStr ''2024-06-01T10:00:00'',
           message_count = 1\<rparr>,
          \<lparr>sum_chat_id = JStr ''1'', sum_title = JStr ''Notes'',
           sum_created_at = JStr ''2024-01-01T09:00:00'', sum_updated_at = JStr ''2024-05-01T10:00:00'',
           message_count = 1\<rparr>]
   \<and> load_sessions plain_lib (Some ''/data'')
      [(''/data/chat_1'', True), (''/data/chat_2'', True)]
      \<lparr>files = [''/data/chat_1/session.json'' \<mapsto> JsonFile (example_record ''1'' ''2024-05-01T10:00:00''),
                ''/data/chat_2/session.json'' \<mapsto> TextFile ''{ half a rec''],
       can_write = (\<lambda>p. True)\<rparr>
     = Failure 500 ''not JSON''"
proof -
  let ?listing = "[(''/data/chat_1'', True), (''/data/chat_2'', True), (''/data/chat_3'', True),
       (''/data/chat_notes.txt'', False)]"
  let ?D = "\<lparr>files = [''/data/chat_1/session.json'' \<mapsto> JsonFile (example_record ''1'' ''2024-05-01T10:00:00''),
                ''/data/chat_3/session.json'' \<mapsto> JsonFile (example_record ''3'' ''2024-06-01T10:00:00'')],
       can_write = (\<lambda>p. True)\<rparr>"
  let ?listing2 = "[(''/data/chat_1'', True), (''/data/chat_2'', True)]"
  let ?D2 = "\<lparr>files = [''/data/chat_1/session.json'' \<mapsto> JsonFile (example_record ''1'' ''2024-05-01T10:00:00''),
                ''/data/chat_2/session.json'' \<mapsto> TextFile ''{ half a rec''],
       can_write = (\<lambda>p. True)\<rparr>"
  let ?s3 = "\<lparr>sum_chat_id = JStr ''3'', sum_title = JStr ''Notes'',
           sum_created_at = JStr ''2024-01-01T09:00:00'', sum_updated_at = JStr ''2024-06-01T10:00:00'',
           message_count = 1\<rparr>"
  let ?s1 = "\<lparr>sum_chat_id = JStr ''1'', sum_title = JStr ''Notes'',
           sum_created_at = JStr ''2024-01-01T09:00:00'', sum_updated_at = JStr ''2024-05-01T10:00:00'',
           message_count = 1\<rparr>"
  have h1: "has_text (Some ''/data'')" by simp
  have h2: "list_all (\<lambda>entry. record_file ?D entry \<noteq> None \<longrightarrow>
            \<not> isl (entry_summary plain_lib ?D entry)
            \<and> text_key (projr (entry_summary plain_lib ?D entry))) ?listing"
    by code_simp
  have h3: "list_ex (\<lambda>entry. record_file ?D2 entry \<noteq> None
              \<and> isl (read_json plain_lib (the (record_file ?D2 entry)))) ?listing2"
    by code_simp
  have v: "load_sessions plain_lib (Some ''/data'') ?listing ?D = Success [?s3, ?s1]"
    by code_simp
  have f: "load_sessions plain_lib (Some ''/data'') ?listing2 ?D2 = Failure 500 ''not JSON''"
    by code_simp
  note t = load_sessions_summaries [where STORAGE_PATH = "Some ''/data''" and D = ?D
      and L = plain_lib and listing = ?listing and ?STORAGE_PATH2.0 = "Some ''/data''"
      and ?D2.0 = ?D2 and ?L2.0 = plain_lib and ?listing2.0 = ?listing2]
  from t h1 h2 obtain sessions where
    "load_sessions plain_lib (Some ''/data'') ?listing ?D = Success sessions"
    and "sorted_wrt (\<lambda>a b. updated_text b \<le> updated_text a) sessions" by blast
  with v have o: "sorted_wrt (\<lambda>a b. updated_text b \<le> updated_text a) [?s3, ?s1]" by simp
  from t h1 h3 obtain msg where
    "load_sessions plain_lib (Some ''/data'') ?listing2 ?D2 = Failure 500 msg" by blast
  with f have g: "load_sessions plain_lib (Some ''/data'') ?listing2 ?D2 = Failure 500 ''not JSON''"
    by simp
  from v o g show ?thesis by blast
qed

text \<open>
  Two session directories, the record file of the second one not to be opened: the call
  answers the error, not the summary of the first.
\<close>

theorem load_sessions_summaries_counterexample:
  "load_sessions plain_lib (Some ''/data'')
      [(''/data/chat_1'', True), (''/data/chat_2'', True)]
      \<lparr>files = [''/data/chat_1/session.json'' \<mapsto> JsonFile (example_record ''1'' ''2024-05-01T10:00:00''),
                ''/data/chat_2/session.json'' \<mapsto> Unreadable],
       can_write = (\<lambda>p. True)\<rparr>
     = Failure 500 ''cannot open the file''"
  by code_simp

section \<open>Saving a session and loading it again\<close>

text \<open>
  Claim C10. When \<^verbatim>\<open>save_session\<close> succeeds for a request with the chat identifier
  \<^verbatim>\<open>chat_id\<close>, \<^verbatim>\<open>load_session\<close> called next with that identifier, as the text it has in the
  name of the chat folder, succeeds, and the record it returns has the \<^verbatim>\<open>chat_id\<close>, the
  title and the messages of the request (the title \<^verbatim>\<open>Untitled Chat\<close> and no messages when
  the request had none). The uploaded files are written under \<^verbatim>\<open>uploads\<close> and never over
  the record.
\<close>

theorem save_then_load_session:
  "save_session L STORAGE_PATH now1 now2 D data = (D', Success (chat_id, chat_folder)) \<longrightarrow>
   (\<exists>session_data.
      load_session L STORAGE_PATH D' (fstring L chat_id) = Success session_data
      \<and> py_get data ''chat_id'' JNull = Inr chat_id
      \<and> py_get session_data ''chat_id'' JNull = py_get data ''chat_id'' JNull
      \<and> py_get session_data ''title'' JNull = py_get data ''chat_title'' (JStr ''Untitled Chat'')
      \<and> py_get session_data ''messages'' JNull = py_get data ''messages'' (JArr []))"
proof
  assume s: "save_session L STORAGE_PATH now1 now2 D data = (D', Success (chat_id, chat_folder))"
  from save_session_stores [OF s] obtain chat_title created_at messages where
    g: "py_get data ''chat_id'' JNull = Inr chat_id"
       "py_get data ''chat_title'' (JStr ''Untitled Chat'') = Inr chat_title"
       "py_get data ''messages'' (JArr []) = Inr messages"
    and sp: "has_text STORAGE_PATH"
    and f: "files D' (the STORAGE_PATH @ ''/chat_'' @ fstring L chat_id @ ''/session.json'')
         = Some (JsonFile (session_data_of chat_id chat_title created_at messages now2))"
    by auto
  let ?sd = "session_data_of chat_id chat_title created_at messages now2"
  from sp f have l: "load_session L STORAGE_PATH D' (fstring L chat_id) = Success ?sd"
    by (simp add: load_session_def)
  have "py_get ?sd ''chat_id'' JNull = Inr chat_id"
    and "py_get ?sd ''title'' JNull = Inr chat_title"
    and "py_get ?sd ''messages'' JNull = Inr messages"
    by (simp_all add: session_data_of_def)
  with l g show "\<exists>session_data.
      load_session L STORAGE_PATH D' (fstring L chat_id) = Success session_data
      \<and> py_get data ''chat_id'' JNull = Inr chat_id
      \<and> py_get session_data ''chat_id'' JNull = py_get data ''chat_id'' JNull
      \<and> py_get session_data ''title'' JNull = py_get data ''chat_title'' (JStr ''Untitled Chat'')
      \<and> py_get session_data ''messages'' JNull = py_get data ''messages'' (JArr [])"
    by simp
qed

theorem save_then_load_session_witness:
  "snd (save_session plain_lib (Some ''/data'') ''2024-05-01T10:00:00'' ''2024-05-01T10:00:01''
         \<lparr>files = Map.empty, can_write = (\<lambda>p. True)\<rparr>
         (JObj [(''chat_id'', JStr ''42''), (''chat_title'', JStr ''Trip''),
                (''messages'', JArr [JObj [(''role'', JStr ''user''), (''files'', JArr
                   [JObj [(''name'', JStr ''my file:name?.txt''), (''content'', JStr ''hello'')]])]])]))
     = Success (JStr ''42'', ''/data/chat_42'')
   \<and> files (fst (save_session plain_lib (Some ''/data'') ''2024-05-01T10:00:00'' ''2024-05-01T10:00:01''
         \<lparr>files = Map.empty, can_write = (\<lambda>p. True)\<rparr>
         (JObj [(''chat_id'', JStr ''42''), (''chat_title'', JStr ''Trip''),
                (''messages'', JArr [JObj [(''role'', JStr ''user''), (''files'', JArr
                   [JObj [(''name'', JStr ''my file:name?.txt''), (''content'', JStr ''hello'')]])]])])))
       ''/data/chat_42/uploads/my file_name_.txt''
     = Some (TextFile ''hello'')
   \<and> load_session plain_lib (Some ''/data'')
        (fst (save_session plain_lib (Some ''/data'') ''2024-05-01T10:00:00'' ''2024-05-01T10:00:01''
         \<lparr>files = Map.empty, can_write = (\<lambda>p. True)\<rparr>
         (JObj [(''chat_id'', JStr ''42''), (''chat_title'', JStr ''Trip''),
                (''messages'', JArr [JObj [(''role'', JStr ''user''), (''files'', JArr
                   [JObj [(''name'', JStr ''my file:name?.txt''), (''content'', JStr ''hello'')]])]])])))
        ''42''
     = Success (JObj [(''chat_id'', JStr ''42''), (''title'', JStr ''Trip''),
          (''created_at'', JStr ''2024-05-01T10:00:00''), (''updated_at'', JStr ''2024-05-01T10:00:01''),
          (''messages'', JArr [JObj [(''role'', JStr ''user''), (''files'', JArr
                   [JObj [(''name'', JStr ''my file:name?.txt''), (''content'', JStr ''hello'')]])]])])"
proof -
  let ?msgs = "JArr [JObj [(''role'', JStr ''user''), (''files'', JArr
                   [JObj [(''name'', JStr ''my file:name?.txt''), (''content'', JStr ''hello'')]])]]"
  let ?data = "JObj [(''chat_id'', JStr ''42''), (''chat_title'', JStr ''Trip''), (''messages'', ?msgs)]"
  let ?D = "\<lparr>files = Map.empty, can_write = (\<lambda>p. True)\<rparr>"
  let ?s = "save_session plain_lib (Some ''/data'') ''2024-05-01T10:00:00'' ''2024-05-01T10:00:01''
      ?D ?data"
  have r: "snd ?s = Success (JStr ''42'', ''/data/chat_42'')" by code_simp
  have u: "files (fst ?s) ''/data/chat_42/uploads/my file_name_.txt'' = Some (TextFile ''hello'')"
    by code_simp
  from r have h: "?s = (fst ?s, Success (JStr ''42'', ''/data/chat_42''))"
    by (metis prod.collapse)
  have fs: "fstring plain_lib (JStr ''42'') = ''42''" by (simp add: fstring_def)
  from save_then_load_session [where L = plain_lib and STORAGE_PATH = "Some ''/data''"
      and ?now1.0 = "''2024-05-01T10:00:00''" and ?now2.0 = "''2024-05-01T10:00:01''" and D = ?D
      and data = ?data and D' = "fst ?s" and chat_id = "JStr ''42''"
      and chat_folder = "''/data/chat_42''"] h
  obtain sd where l: "load_session plain_lib (Some ''/data'') (fst ?s) (fstring plain_lib (JStr ''42''))
      = Success sd" by blast
  have l2: "load_session plain_lib (Some ''/data'') (fst ?s) ''42''
     = Success (JObj [(''chat_id'', JStr ''42''), (''title'', JStr ''Trip''),
          (''created_at'', JStr ''2024-05-01T10:00:00''), (''updated_at'', JStr ''2024-05-01T10:00:01''),
          (''messages'', ?msgs)])"
    by code_simp
  from r u l l2 show ?thesis by blast
qed

end
